theory Spec2Isabelle
  imports Complex_Main "HOL-Library.Sublist" "HOL-Library.AList"
begin

section \<open>Characters and strings of the host language\<close>

text \<open>
  The program is TypeScript; its strings are sequences of code units.  A string is
  modelled as a \<^typ>\<open>string\<close>, a character as a code unit below 256.  The
  predicates below are the character classes of the regular expressions the source
  uses: \<^verbatim>\<open>\s\<close> (also the set that \<^verbatim>\<open>String.prototype.trim\<close>
  strips), \<^verbatim>\<open>\d\<close>, \<^verbatim>\<open>[a-zA-Z]\<close> and \<^verbatim>\<open>\w\<close>.
\<close>

definition is_space :: "char \<Rightarrow> bool" where
  "is_space c = (c \<in> set [CHR 0x09, CHR 0x0A, CHR 0x0B, CHR 0x0C, CHR 0x0D, CHR 0x20, CHR 0xA0])"

definition is_digit :: "char \<Rightarrow> bool" where
  "is_digit c = ((48::nat) \<le> of_char c \<and> (of_char c :: nat) \<le> 57)"

definition is_upper :: "char \<Rightarrow> bool" where
  "is_upper c = ((65::nat) \<le> of_char c \<and> (of_char c :: nat) \<le> 90)"

definition is_lower :: "char \<Rightarrow> bool" where
  "is_lower c = ((97::nat) \<le> of_char c \<and> (of_char c :: nat) \<le> 122)"

definition is_alpha :: "char \<Rightarrow> bool" where
  "is_alpha c = (is_upper c \<or> is_lower c)"

definition is_word_char :: "char \<Rightarrow> bool" where
  "is_word_char c = (is_alpha c \<or> is_digit c \<or> c = CHR ''_'')"

definition lower_char :: "char \<Rightarrow> char" where
  "lower_char c =
     (case map_of (zip ''ABCDEFGHIJKLMNOPQRSTUVWXYZ'' ''abcdefghijklmnopqrstuvwxyz'') c of
        Some l \<Rightarrow> l
      | None \<Rightarrow> c)"

definition toLowerCase :: "string \<Rightarrow> string" where
  "toLowerCase s = map lower_char s"

definition trim :: "string \<Rightarrow> string" where
  "trim s = rev (dropWhile is_space (rev (dropWhile is_space s)))"

text \<open>\<^verbatim>\<open>s.split('\n')\<close>: the pieces between the separators, never an empty array.\<close>

fun split_on :: "char \<Rightarrow> string \<Rightarrow> string list" where
  "split_on sep [] = [[]]"
| "split_on sep (c # cs) =
     (if c = sep then [] # split_on sep cs
      else (case split_on sep cs of
              [] \<Rightarrow> [[c]]
            | p # ps \<Rightarrow> (c # p) # ps))"

text \<open>\<^verbatim>\<open>lines.join('\n')\<close>.\<close>

fun join_with :: "char \<Rightarrow> string list \<Rightarrow> string" where
  "join_with sep [] = []"
| "join_with sep [l] = l"
| "join_with sep (l # m # ls) = l @ sep # join_with sep (m # ls)"

section \<open>Values of the host language\<close>

text \<open>
  The interpreter stores JavaScript values in its variables and applies JavaScript's
  own operators to them.  A number is modelled as an exact rational or one of
  \<open>NaN\<close>, \<open>Infinity\<close>, \<open>-Infinity\<close>: the rounding of IEEE doubles and the sign of
  zero are not modelled.  An array is a reference into a heap of arrays.
\<close>

datatype jsnum = Fin rat | NaN | PInf | NInf

datatype jsval =
    VNum jsnum
  | VStr string
  | VBool bool
  | VNull
  | VUndefined
  | VArr nat

type_synonym array_heap = "jsval list list"

subsection \<open>Arithmetic on numbers\<close>

fun num_neg :: "jsnum \<Rightarrow> jsnum" where
  "num_neg (Fin x) = Fin (- x)"
| "num_neg NaN = NaN"
| "num_neg PInf = NInf"
| "num_neg NInf = PInf"

fun num_add :: "jsnum \<Rightarrow> jsnum \<Rightarrow> jsnum" where
  "num_add (Fin x) (Fin y) = Fin (x + y)"
| "num_add NaN b = NaN"
| "num_add a NaN = NaN"
| "num_add PInf NInf = NaN"
| "num_add NInf PInf = NaN"
| "num_add PInf b = PInf"
| "num_add NInf b = NInf"
| "num_add a PInf = PInf"
| "num_add a NInf = NInf"

definition num_sub :: "jsnum \<Rightarrow> jsnum \<Rightarrow> jsnum" where
  "num_sub a b = num_add a (num_neg b)"

text \<open>The sign of a number: 1, 0 or -1; \<open>None\<close> for \<open>NaN\<close>.\<close>

fun num_sign :: "jsnum \<Rightarrow> int option" where
  "num_sign (Fin x) = Some (if x < 0 then -1 else if x = 0 then 0 else 1)"
| "num_sign NaN = None"
| "num_sign PInf = Some 1"
| "num_sign NInf = Some (-1)"

definition inf_of_sign :: "int \<Rightarrow> jsnum" where
  "inf_of_sign sg = (if sg = 0 then NaN else if sg < 0 then NInf else PInf)"

fun num_mul :: "jsnum \<Rightarrow> jsnum \<Rightarrow> jsnum" where
  "num_mul (Fin x) (Fin y) = Fin (x * y)"
| "num_mul a b =
     (case (num_sign a, num_sign b) of
        (Some sa, Some sb) \<Rightarrow> inf_of_sign (sa * sb)
      | _ \<Rightarrow> NaN)"

fun num_div :: "jsnum \<Rightarrow> jsnum \<Rightarrow> jsnum" where
  "num_div (Fin x) (Fin y) =
     (if y = 0 then inf_of_sign (if x < 0 then -1 else if x = 0 then 0 else 1)
      else Fin (x / y))"
| "num_div NaN b = NaN"
| "num_div a NaN = NaN"
| "num_div (Fin x) b = Fin 0"
| "num_div a (Fin y) =
     (case num_sign a of
        Some sa \<Rightarrow> inf_of_sign (if y < 0 then - sa else sa)
      | None \<Rightarrow> NaN)"
| "num_div a b = NaN"

text \<open>The remainder operator: the result has the sign of the dividend.\<close>

fun num_mod :: "jsnum \<Rightarrow> jsnum \<Rightarrow> jsnum" where
  "num_mod (Fin x) (Fin y) =
     (if y = 0 then NaN
      else let q = x / y; t = (if q < 0 then - of_int \<lfloor>- q\<rfloor> else of_int \<lfloor>q\<rfloor>)
           in Fin (x - y * t))"
| "num_mod NaN b = NaN"
| "num_mod a NaN = NaN"
| "num_mod (Fin x) b = Fin x"
| "num_mod a b = NaN"

fun num_less :: "jsnum \<Rightarrow> jsnum \<Rightarrow> bool" where
  "num_less (Fin x) (Fin y) = (x < y)"
| "num_less NaN b = False"
| "num_less a NaN = False"
| "num_less NInf NInf = False"
| "num_less NInf b = True"
| "num_less a NInf = False"
| "num_less PInf b = False"
| "num_less a PInf = True"

text \<open>Equality of numbers: \<open>NaN\<close> equals nothing, not even itself.\<close>

definition num_eq :: "jsnum \<Rightarrow> jsnum \<Rightarrow> bool" where
  "num_eq a b = (a \<noteq> NaN \<and> a = b)"

definition is_integer :: "jsnum \<Rightarrow> bool" where
  "is_integer a = (case a of Fin x \<Rightarrow> x = of_int \<lfloor>x\<rfloor> | _ \<Rightarrow> False)"

subsection \<open>Numbers to strings\<close>

text \<open>A natural number in decimal, as a template literal prints it.\<close>

fun show_nat :: "nat \<Rightarrow> string" where
  "show_nat n =
     (if n < 10 then [char_of (48 + n)]
      else show_nat (n div 10) @ [char_of (48 + n mod 10)])"

declare show_nat.simps [simp del]

subsection \<open>Strings to numbers\<close>

definition digit_value :: "char \<Rightarrow> nat" where
  "digit_value c = of_char c - 48"

definition digits_value :: "string \<Rightarrow> nat" where
  "digits_value ds = foldl (\<lambda>acc c. 10 * acc + digit_value c) 0 ds"

definition all_digits :: "string \<Rightarrow> bool" where
  "all_digits ds = list_all is_digit ds"

text \<open>
  \<open>StrUnsignedDecimalLiteral\<close> without \<open>Infinity\<close>: digits, an optional fraction
  and an optional exponent; at least one digit before or after the point.
\<close>

definition is_exp_char :: "char \<Rightarrow> bool" where
  "is_exp_char c = (c = CHR ''e'' \<or> c = CHR ''E'')"

definition parse_exponent :: "string \<Rightarrow> int option" where
  "parse_exponent e =
     (case e of
        [] \<Rightarrow> Some 0
      | x # r \<Rightarrow>
          (let (neg, ds) = (if hd r = CHR ''-'' \<and> r \<noteq> [] then (True, tl r)
                            else if hd r = CHR ''+'' \<and> r \<noteq> [] then (False, tl r)
                            else (False, r))
           in if ds \<noteq> [] \<and> all_digits ds
              then Some (if neg then - int (digits_value ds) else int (digits_value ds))
              else None))"

definition pow10 :: "int \<Rightarrow> rat" where
  "pow10 e = (if e < 0 then 1 / 10 ^ nat (- e) else 10 ^ nat e)"

definition parse_unsigned_decimal :: "string \<Rightarrow> rat option" where
  "parse_unsigned_decimal t =
     (let m = takeWhile (\<lambda>c. \<not> is_exp_char c) t;
          e = dropWhile (\<lambda>c. \<not> is_exp_char c) t;
          ip = takeWhile is_digit m;
          r = dropWhile is_digit m
      in case parse_exponent e of
           None \<Rightarrow> None
         | Some ex \<Rightarrow>
             if r = [] then
               (if ip = [] then None else Some (of_nat (digits_value ip) * pow10 ex))
             else if hd r = CHR ''.'' \<and> all_digits (tl r) \<and> (ip \<noteq> [] \<or> tl r \<noteq> [])
             then Some ((of_nat (digits_value ip)
                         + of_nat (digits_value (tl r)) / 10 ^ length (tl r)) * pow10 ex)
             else None)"

definition radix_digit :: "char \<Rightarrow> nat option" where
  "radix_digit c =
     (if is_digit c then Some (of_char c - 48)
      else if 97 \<le> (of_char c :: nat) \<and> (of_char c :: nat) \<le> 102 then Some (of_char c - 87)
      else if 65 \<le> (of_char c :: nat) \<and> (of_char c :: nat) \<le> 70 then Some (of_char c - 55)
      else None)"

fun parse_radix :: "nat \<Rightarrow> nat \<Rightarrow> string \<Rightarrow> nat option" where
  "parse_radix b acc [] = Some acc"
| "parse_radix b acc (c # cs) =
     (case radix_digit c of
        None \<Rightarrow> None
      | Some d \<Rightarrow> if d < b then parse_radix b (b * acc + d) cs else None)"

definition parse_non_decimal :: "string \<Rightarrow> rat option" where
  "parse_non_decimal t =
     (if length t < 3 \<or> hd t \<noteq> CHR ''0'' then None
      else let p = lower_char (t ! 1); ds = drop 2 t
           in if p = CHR ''x'' then map_option of_nat (parse_radix 16 0 ds)
              else if p = CHR ''o'' then map_option of_nat (parse_radix 8 0 ds)
              else if p = CHR ''b'' then map_option of_nat (parse_radix 2 0 ds)
              else None)"

text \<open>
  \<open>StringToNumber\<close>: white space around the literal is dropped, the empty string is
  0, a text that is no numeric literal is \<open>NaN\<close>.
\<close>

definition string_to_number :: "string \<Rightarrow> jsnum" where
  "string_to_number s =
     (let t = trim s in
      if t = [] then Fin 0
      else case parse_non_decimal t of
        Some v \<Rightarrow> Fin v
      | None \<Rightarrow>
         (let neg = (hd t = CHR ''-'');
              u = (if hd t = CHR ''-'' \<or> hd t = CHR ''+'' then tl t else t)
          in if u = ''Infinity'' then (if neg then NInf else PInf)
             else case parse_unsigned_decimal u of
                    None \<Rightarrow> NaN
                  | Some v \<Rightarrow> Fin (if neg then - v else v)))"

subsection \<open>Conversions and operators\<close>

text \<open>
  What the model takes from the JavaScript runtime without defining it: the printing
  of a finite number, the printing of an array (\<open>Array.prototype.toString\<close>, on the
  heap of arrays), and the library functions behind the built-in functions of the
  language (\<open>Math\<close>, \<open>Intl\<close>, \<open>parseInt\<close>, \<open>parseFloat\<close>, string methods).
  \<open>builtin_impl name k arrays args\<close> is the result of the \<open>k\<close>-th call of a built-in
  function in a run: \<open>Inl msg\<close> when the implementation throws an \<open>Error\<close>.
\<close>

record js_runtime =
  number_to_string :: "rat \<Rightarrow> string"
  array_to_string :: "array_heap \<Rightarrow> nat \<Rightarrow> string"
  builtin_impl :: "string \<Rightarrow> nat \<Rightarrow> array_heap \<Rightarrow> jsval list \<Rightarrow> string + jsval"

definition ToBoolean :: "jsval \<Rightarrow> bool" where
  "ToBoolean v =
     (case v of
        VNum n \<Rightarrow> (case n of Fin x \<Rightarrow> x \<noteq> 0 | NaN \<Rightarrow> False | PInf \<Rightarrow> True | NInf \<Rightarrow> True)
      | VStr s \<Rightarrow> s \<noteq> []
      | VBool b \<Rightarrow> b
      | VNull \<Rightarrow> False
      | VUndefined \<Rightarrow> False
      | VArr a \<Rightarrow> True)"

text \<open>\<open>ToPrimitive\<close>: an array becomes its text, every other value is primitive.\<close>

definition ToPrimitive :: "js_runtime \<Rightarrow> array_heap \<Rightarrow> jsval \<Rightarrow> jsval" where
  "ToPrimitive rt h v = (case v of VArr a \<Rightarrow> VStr (array_to_string rt h a) | _ \<Rightarrow> v)"

definition num_to_string :: "js_runtime \<Rightarrow> jsnum \<Rightarrow> string" where
  "num_to_string rt n =
     (case n of
        Fin x \<Rightarrow> number_to_string rt x
      | NaN \<Rightarrow> ''NaN''
      | PInf \<Rightarrow> ''Infinity''
      | NInf \<Rightarrow> ''-Infinity'')"

definition ToString :: "js_runtime \<Rightarrow> array_heap \<Rightarrow> jsval \<Rightarrow> string" where
  "ToString rt h v =
     (case v of
        VNum n \<Rightarrow> num_to_string rt n
      | VStr s \<Rightarrow> s
      | VBool b \<Rightarrow> (if b then ''true'' else ''false'')
      | VNull \<Rightarrow> ''null''
      | VUndefined \<Rightarrow> ''undefined''
      | VArr a \<Rightarrow> array_to_string rt h a)"

definition ToNumber :: "js_runtime \<Rightarrow> array_heap \<Rightarrow> jsval \<Rightarrow> jsnum" where
  "ToNumber rt h v =
     (case v of
        VNum n \<Rightarrow> n
      | VStr s \<Rightarrow> string_to_number s
      | VBool b \<Rightarrow> (if b then Fin 1 else Fin 0)
      | VNull \<Rightarrow> Fin 0
      | VUndefined \<Rightarrow> NaN
      | VArr a \<Rightarrow> string_to_number (array_to_string rt h a))"

definition is_string :: "jsval \<Rightarrow> bool" where
  "is_string v = (case v of VStr s \<Rightarrow> True | _ \<Rightarrow> False)"

definition is_number :: "jsval \<Rightarrow> bool" where
  "is_number v = (case v of VNum n \<Rightarrow> True | _ \<Rightarrow> False)"

text \<open>The operator \<open>+\<close>: concatenation when an operand is a string, else addition.\<close>

definition js_add :: "js_runtime \<Rightarrow> array_heap \<Rightarrow> jsval \<Rightarrow> jsval \<Rightarrow> jsval" where
  "js_add rt h l r =
     (let lp = ToPrimitive rt h l; rp = ToPrimitive rt h r
      in if is_string lp \<or> is_string rp then VStr (ToString rt h lp @ ToString rt h rp)
         else VNum (num_add (ToNumber rt h lp) (ToNumber rt h rp)))"

definition js_arith ::
  "(jsnum \<Rightarrow> jsnum \<Rightarrow> jsnum) \<Rightarrow> js_runtime \<Rightarrow> array_heap \<Rightarrow> jsval \<Rightarrow> jsval \<Rightarrow> jsval" where
  "js_arith f rt h l r = VNum (f (ToNumber rt h l) (ToNumber rt h r))"

text \<open>Strings compare by their code units, from left to right.\<close>

fun string_less :: "string \<Rightarrow> string \<Rightarrow> bool" where
  "string_less [] [] = False"
| "string_less [] (y # ys) = True"
| "string_less (x # xs) [] = False"
| "string_less (x # xs) (y # ys) =
     (if x = y then string_less xs ys else (of_char x :: nat) < of_char y)"

text \<open>
  The abstract relational comparison \<open>x < y\<close>: \<open>None\<close> is the result
  \<open>undefined\<close>, when an operand is \<open>NaN\<close>.
\<close>

definition js_compare :: "js_runtime \<Rightarrow> array_heap \<Rightarrow> jsval \<Rightarrow> jsval \<Rightarrow> bool option" where
  "js_compare rt h x y =
     (let px = ToPrimitive rt h x; py = ToPrimitive rt h y
      in case (px, py) of
           (VStr a, VStr b) \<Rightarrow> Some (string_less a b)
         | _ \<Rightarrow>
           (let nx = ToNumber rt h px; ny = ToNumber rt h py
            in if nx = NaN \<or> ny = NaN then None else Some (num_less nx ny)))"

definition js_lt :: "js_runtime \<Rightarrow> array_heap \<Rightarrow> jsval \<Rightarrow> jsval \<Rightarrow> bool" where
  "js_lt rt h l r = (js_compare rt h l r = Some True)"

definition js_gt :: "js_runtime \<Rightarrow> array_heap \<Rightarrow> jsval \<Rightarrow> jsval \<Rightarrow> bool" where
  "js_gt rt h l r = (js_compare rt h r l = Some True)"

definition js_le :: "js_runtime \<Rightarrow> array_heap \<Rightarrow> jsval \<Rightarrow> jsval \<Rightarrow> bool" where
  "js_le rt h l r = (js_compare rt h r l = Some False)"

definition js_ge :: "js_runtime \<Rightarrow> array_heap \<Rightarrow> jsval \<Rightarrow> jsval \<Rightarrow> bool" where
  "js_ge rt h l r = (js_compare rt h l r = Some False)"

text \<open>
  The operator \<open>==\<close> (loose equality).  Values of one type compare strictly, arrays
  by reference; \<open>null\<close> and \<open>undefined\<close> equal each other and nothing else; a
  string meets a number as a number; a boolean becomes a number first; an array meets
  a primitive as its text.
\<close>

definition prim_loose_eq :: "jsval \<Rightarrow> jsval \<Rightarrow> bool" where
  "prim_loose_eq x y =
     (case (x, y) of
        (VNum a, VNum b) \<Rightarrow> num_eq a b
      | (VStr a, VStr b) \<Rightarrow> a = b
      | (VNum a, VStr b) \<Rightarrow> num_eq a (string_to_number b)
      | (VStr a, VNum b) \<Rightarrow> num_eq (string_to_number a) b
      | _ \<Rightarrow> False)"

definition bool_to_num :: "jsval \<Rightarrow> jsval" where
  "bool_to_num v = (case v of VBool b \<Rightarrow> VNum (if b then Fin 1 else Fin 0) | _ \<Rightarrow> v)"

definition is_nullish :: "jsval \<Rightarrow> bool" where
  "is_nullish v = (v = VNull \<or> v = VUndefined)"

definition js_loose_eq :: "js_runtime \<Rightarrow> array_heap \<Rightarrow> jsval \<Rightarrow> jsval \<Rightarrow> bool" where
  "js_loose_eq rt h x y =
     (case (x, y) of
        (VArr a, VArr b) \<Rightarrow> a = b
      | (VBool a, VBool b) \<Rightarrow> a = b
      | _ \<Rightarrow>
        if is_nullish x \<or> is_nullish y then is_nullish x \<and> is_nullish y
        else prim_loose_eq (ToPrimitive rt h (bool_to_num x)) (ToPrimitive rt h (bool_to_num y)))"

definition js_loose_ne :: "js_runtime \<Rightarrow> array_heap \<Rightarrow> jsval \<Rightarrow> jsval \<Rightarrow> bool" where
  "js_loose_ne rt h x y = (\<not> js_loose_eq rt h x y)"

text \<open>\<open>l && r\<close> and \<open>l || r\<close> on two values already computed.\<close>

definition js_and :: "jsval \<Rightarrow> jsval \<Rightarrow> jsval" where
  "js_and l r = (if ToBoolean l then r else l)"

definition js_or :: "jsval \<Rightarrow> jsval \<Rightarrow> jsval" where
  "js_or l r = (if ToBoolean l then l else r)"

section \<open>Errors\<close>

text \<open>
  What the program throws: \<open>InterpreterError\<close> with its message and line,
  \<open>ProgramStoppedError\<close>, the \<open>ReturnError\<close> that carries the value of a
  \<open>Return\<close> statement, the plain \<open>Error\<close> of \<open>Environment.define\<close>, and the
  \<open>TypeError\<close> and \<open>RangeError\<close> of the JavaScript runtime.
\<close>

datatype error =
    InterpreterError string nat
  | ProgramStoppedError
  | ReturnError jsval
  | Error string
  | TypeError string
  | RangeError string

section \<open>The code formatter\<close>

text \<open>
  A test of \<^verbatim>\<open>/^\s*(k1|k2|...)\b/i\<close>: after the leading white space one of the
  alternatives matches case-insensitively, and a word boundary follows it.
\<close>

definition starts_with_ci :: "string \<Rightarrow> string \<Rightarrow> bool" where
  "starts_with_ci k s =
     (length k \<le> length s \<and> toLowerCase (take (length k) s) = toLowerCase k)"

definition word_boundary :: "string \<Rightarrow> string \<Rightarrow> bool" where
  "word_boundary before after =
     ((before \<noteq> [] \<and> is_word_char (last before)) \<noteq> (after \<noteq> [] \<and> is_word_char (hd after)))"

definition keyword_test :: "string list \<Rightarrow> string \<Rightarrow> bool" where
  "keyword_test ks s =
     (let t = dropWhile is_space s
      in list_ex (\<lambda>k. starts_with_ci k t \<and> word_boundary k (drop (length k) t)) ks)"

definition INDENT_KEYWORDS :: "string \<Rightarrow> bool" where
  "INDENT_KEYWORDS = keyword_test [''Module'', ''Function'', ''If'', ''Do'', ''While'', ''For'']"

definition OUTDENT_KEYWORDS :: "string \<Rightarrow> bool" where
  "OUTDENT_KEYWORDS =
     keyword_test [''End Module'', ''End Function'', ''End If'', ''End While'', ''End For'', ''Until'']"

definition ELSE_KEYWORD :: "string \<Rightarrow> bool" where
  "ELSE_KEYWORD = keyword_test [''Else'']"

definition INDENTATION :: string where
  "INDENTATION = ''   ''"

definition repeat_str :: "string \<Rightarrow> int \<Rightarrow> string" where
  "repeat_str s n = concat (replicate (nat n) s)"

text \<open>
  The loop of \<^verbatim>\<open>formatCode\<close> over the lines; \<open>indentLevel\<close> is the loop's
  variable, the result is \<^verbatim>\<open>formattedLines\<close>.
\<close>

fun format_lines :: "int \<Rightarrow> string list \<Rightarrow> string list" where
  "format_lines indentLevel [] = []"
| "format_lines indentLevel (line # rest) =
     (let trimmedLine = trim line in
      if trimmedLine = [] then [] # format_lines indentLevel rest
      else
        let lvl1 = (if OUTDENT_KEYWORDS trimmedLine \<or> ELSE_KEYWORD trimmedLine
                    then max 0 (indentLevel - 1) else indentLevel);
            indentedLine = repeat_str INDENTATION lvl1 @ trimmedLine;
            lvl2 = (if INDENT_KEYWORDS trimmedLine \<or> ELSE_KEYWORD trimmedLine
                    then lvl1 + 1 else lvl1)
        in indentedLine # format_lines lvl2 rest)"

definition formatCode :: "string \<Rightarrow> string" where
  "formatCode code = join_with CHR 0x0A (format_lines 0 (split_on CHR 0x0A code))"

section \<open>Tokens and the lexer\<close>

datatype TokenType =
    MODULE | END_MODULE | FUNCTION | END_FUNCTION | CALL | RETURN | CONSTANT | DECLARE
  | INTEGER_TYPE | REAL_TYPE | STRING_TYPE | REF | SET | DISPLAY | INPUT | IF | THEN | ELSE
  | END_IF | DO | UNTIL | WHILE | END_WHILE | FOR | TO | END_FOR | TAP
  | IDENTIFIER | NUMBER | STRING
  | ASSIGN | PLUS | MINUS | MULTIPLY | DIVIDE | MOD | POWER | LPAREN | RPAREN
  | LBRACKET | RBRACKET | COMMA
  | EQUAL | NOT_EQUAL | LESS | LESS_EQUAL | GREATER | GREATER_EQUAL | AND | OR | NOT
  | EOF


















subsection \<open>What one turn of the loop consumes\<close>




















subsection \<open>The loop of tokenize\<close>




section \<open>The syntax tree\<close>

text \<open>
  Every node carries its \<open>lineNumber\<close>, the last argument of each constructor.  A
  literal holds a number or a string.
\<close>

datatype expr =
    Literal jsval nat
  | Identifier string nat
  | ArrayLiteral "expr list" nat
  | ArrayAccess expr expr nat
  | Grouping expr nat
  | UnaryExpression string expr nat
  | BinaryExpression expr string expr nat
  | FunctionCall string "expr list" nat

text \<open>A declarator: the identifier, the size of an array and the initializer, if any.\<close>

datatype Declarator = Declarator string "expr option" "expr option"

datatype display_item = TapMarker | Item expr

record Parameter =
  pname :: string
  pdataType :: string
  isReference :: bool
  isArray :: bool

datatype stmt =
    VariableDeclaration string "Declarator list" bool nat
  | Assignment expr expr nat
  | DisplayStatement "display_item list" nat
  | InputStatement string nat
  | IfStatement expr "stmt list" "stmt list option" nat
  | DoWhileStatement expr "stmt list" nat
  | DoUntilStatement expr "stmt list" nat
  | WhileStatement expr "stmt list" nat
  | ForStatement string expr expr "stmt list" nat
  | ModuleStatement string "Parameter list" "stmt list" nat
  | FunctionDeclaration string string "Parameter list" "stmt list" nat
  | CallStatement string "expr list" nat
  | ReturnStatement expr nat

fun stmt_line :: "stmt \<Rightarrow> nat" where
  "stmt_line (VariableDeclaration t ds c l) = l"
| "stmt_line (Assignment lv v l) = l"
| "stmt_line (DisplayStatement vs l) = l"
| "stmt_line (InputStatement x l) = l"
| "stmt_line (IfStatement c t e l) = l"
| "stmt_line (DoWhileStatement c b l) = l"
| "stmt_line (DoUntilStatement c b l) = l"
| "stmt_line (WhileStatement c b l) = l"
| "stmt_line (ForStatement x a b body l) = l"
| "stmt_line (ModuleStatement n ps b l) = l"
| "stmt_line (FunctionDeclaration n t ps b l) = l"
| "stmt_line (CallStatement n as l) = l"
| "stmt_line (ReturnStatement e l) = l"

text \<open>The callee of a call: the parameters and the body of a module or a function.\<close>

fun callee_parameters :: "stmt \<Rightarrow> Parameter list" where
  "callee_parameters (ModuleStatement n ps b l) = ps"
| "callee_parameters (FunctionDeclaration n t ps b l) = ps"
| "callee_parameters other = []"

fun callee_body :: "stmt \<Rightarrow> stmt list" where
  "callee_body (ModuleStatement n ps b l) = b"
| "callee_body (FunctionDeclaration n t ps b l) = b"
| "callee_body other = []"

fun callee_name :: "stmt \<Rightarrow> string" where
  "callee_name (ModuleStatement n ps b l) = n"
| "callee_name (FunctionDeclaration n t ps b l) = n"
| "callee_name other = []"

section \<open>Environments\<close>

text \<open>
  The objects of the interpreter live in three heaps, a reference is an index.
  An \<open>EnvironmentValue\<close> is the mutable cell of a variable.  An
  \<open>EnvironmentEntry\<close> is never changed once made: the reference of its cell and
  the name as first written.  An \<open>Environment\<close> maps lower-case names to entries, in
  insertion order, and refers to the environment that encloses it.
\<close>

record EnvironmentValue =
  val :: jsval
  isConstant :: bool
  dataType :: string

record EnvironmentEntry =
  entry :: nat
  originalName :: string

record Environment =
  values_map :: "(string \<times> EnvironmentEntry) list"
  enclosing :: "nat option"

text \<open>
  What the host sees of a run: the lists handed to \<open>displayProvider\<close> and the
  prompts handed to \<open>inputProvider\<close>, in their order.
\<close>

datatype event = Display "jsval list" | Prompt string

text \<open>A step point of the generator: the line and the serialized scope.\<close>

record DebuggerState =
  lineNumber :: nat
  scope :: "(string \<times> jsval) list"

text \<open>
  The state of a run.  \<open>environment\<close> is the field \<open>this.environment\<close>;
  \<open>this.globals\<close> is the environment 0.  The host is a part of the state:
  \<open>stop_polls\<close> are the answers of \<open>shouldStop()\<close> to the polls still to come
  (\<open>false\<close> once the list is used up), \<open>inputs\<close> the answers of
  \<open>inputProvider\<close> still to come (\<open>None\<close> is \<open>null\<close>).  \<open>yields\<close> are the
  step points the generator has yielded to its consumer.
\<close>

record state =
  envs :: "Environment list"
  cells :: "EnvironmentValue list"
  arrays :: array_heap
  environment :: nat
  events :: "event list"
  yields :: "DebuggerState list"
  stop_polls :: "bool list"
  inputs :: "string option list"
  builtin_calls :: nat

text \<open>
  How a computation ends: with a value, with a thrown exception, waiting for ever for
  an input the host never gives, or (in the model only) out of fuel.
\<close>

datatype 'a outcome = Ok 'a | Throw error | Pending | Timeout

type_synonym 'a result = "'a outcome \<times> state"

definition and_then :: "'a result \<Rightarrow> ('a \<Rightarrow> state \<Rightarrow> 'b result) \<Rightarrow> 'b result" where
  "and_then m f =
     (case m of
        (Ok a, s) \<Rightarrow> f a s
      | (Throw e, s) \<Rightarrow> (Throw e, s)
      | (Pending, s) \<Rightarrow> (Pending, s)
      | (Timeout, s) \<Rightarrow> (Timeout, s))"

lemma and_then_cong [fundef_cong]:
  "m = m' \<Longrightarrow> (\<And>a s. m' = (Ok a, s) \<Longrightarrow> f a s = f' a s) \<Longrightarrow> and_then m f = and_then m' f'"
  by (auto simp: and_then_def split: prod.splits outcome.splits)

definition lift :: "error + 'a \<Rightarrow> state \<Rightarrow> 'a result" where
  "lift r s = (case r of Inl e \<Rightarrow> (Throw e, s) | Inr a \<Rightarrow> (Ok a, s))"

subsection \<open>The class Environment\<close>

definition new_Environment :: "nat option \<Rightarrow> state \<Rightarrow> nat \<times> state" where
  "new_Environment encl s =
     (length (envs s), s\<lparr>envs := envs s @ [\<lparr>values_map = [], enclosing = encl\<rparr>]\<rparr>)"

definition env_has :: "state \<Rightarrow> nat \<Rightarrow> string \<Rightarrow> bool" where
  "env_has s e lowerName = (map_of (values_map (envs s ! e)) lowerName \<noteq> None)"

definition env_set :: "nat \<Rightarrow> string \<Rightarrow> EnvironmentEntry \<Rightarrow> state \<Rightarrow> state" where
  "env_set e lowerName ent s =
     s\<lparr>envs := (envs s)[e := (envs s ! e)\<lparr>values_map :=
          AList.update lowerName ent (values_map (envs s ! e))\<rparr>]\<rparr>"

definition already_defined :: "string \<Rightarrow> error" where
  "already_defined name = Error (''Variable '' @ name @ '' already defined in this scope.'')"

definition define_env :: "nat \<Rightarrow> string \<Rightarrow> bool \<Rightarrow> string \<Rightarrow> jsval \<Rightarrow> state \<Rightarrow> unit result" where
  "define_env e name isConst dt v s =
     (let lowerName = toLowerCase name in
      if env_has s e lowerName then (Throw (already_defined name), s)
      else (Ok (),
            env_set e lowerName \<lparr>entry = length (cells s), originalName = name\<rparr>
              (s\<lparr>cells := cells s @ [\<lparr>val = v, isConstant = isConst, dataType = dt\<rparr>]\<rparr>)))"

definition defineReference :: "nat \<Rightarrow> string \<Rightarrow> EnvironmentEntry \<Rightarrow> state \<Rightarrow> unit result" where
  "defineReference e name valueEntry s =
     (let lowerName = toLowerCase name in
      if env_has s e lowerName then (Throw (already_defined name), s)
      else (Ok (), env_set e lowerName valueEntry s))"

text \<open>
  \<open>assign\<close>, \<open>getEntry\<close> and \<open>serialize\<close> follow the chain of enclosing
  environments.  An environment is always made after the one that encloses it, so the
  reference of the enclosing one is smaller; the test \<open>p < e\<close> makes the recursion
  well-founded and never fails in a run.
\<close>

function assign :: "nat \<Rightarrow> string \<Rightarrow> jsval \<Rightarrow> nat \<Rightarrow> state \<Rightarrow> EnvironmentValue result" where
  "assign e name v line s =
     (case map_of (values_map (envs s ! e)) (toLowerCase name) of
        Some existing \<Rightarrow>
          if isConstant (cells s ! entry existing)
          then (Throw (InterpreterError (''Cannot assign to constant \"'' @ name @ ''\".'') line), s)
          else (Ok ((cells s ! entry existing)\<lparr>val := v\<rparr>),
                s\<lparr>cells := (cells s)[entry existing := (cells s ! entry existing)\<lparr>val := v\<rparr>]\<rparr>)
      | None \<Rightarrow>
          (case enclosing (envs s ! e) of
             Some p \<Rightarrow>
               if p < e then assign p name v line s
               else (Throw (InterpreterError (''Variable \"'' @ name @ ''\" has not been declared.'') line), s)
           | None \<Rightarrow>
               (Throw (InterpreterError (''Variable \"'' @ name @ ''\" has not been declared.'') line), s)))"
  by pat_completeness auto
termination
  by (relation "measure (\<lambda>(e, name, v, line, s). e)") auto

function getEntry :: "state \<Rightarrow> nat \<Rightarrow> string \<Rightarrow> nat \<Rightarrow> error + EnvironmentEntry" where
  "getEntry s e name line =
     (case map_of (values_map (envs s ! e)) (toLowerCase name) of
        Some ent \<Rightarrow> Inr ent
      | None \<Rightarrow>
          (case enclosing (envs s ! e) of
             Some p \<Rightarrow>
               if p < e then getEntry s p name line
               else Inl (InterpreterError (''Variable \"'' @ name @ ''\" not found.'') line)
           | None \<Rightarrow> Inl (InterpreterError (''Variable \"'' @ name @ ''\" not found.'') line)))"
  by pat_completeness auto
termination
  by (relation "measure (\<lambda>(s, e, name, line). e)") auto

definition get :: "state \<Rightarrow> nat \<Rightarrow> string \<Rightarrow> nat \<Rightarrow> error + jsval" where
  "get s e name line =
     (case getEntry s e name line of
        Inl err \<Rightarrow> Inl err
      | Inr ent \<Rightarrow> Inr (val (cells s ! entry ent)))"

text \<open>
  \<open>serialize\<close>: the variables of the enclosing environments first, then this
  environment's; a property set again keeps its place and takes the new value.
\<close>

function serialize :: "state \<Rightarrow> nat \<Rightarrow> (string \<times> jsval) list" where
  "serialize s e =
     foldl (\<lambda>sc (k, ent). AList.update (originalName ent) (val (cells s ! entry ent)) sc)
       (case enclosing (envs s ! e) of
          Some p \<Rightarrow> if p < e then serialize s p else []
        | None \<Rightarrow> [])
       (values_map (envs s ! e))"
  by pat_completeness auto
termination
  by (relation "measure (\<lambda>(s, e). e)") auto

declare assign.simps [simp del] getEntry.simps [simp del] serialize.simps [simp del]

section \<open>The interpreter\<close>

subsection \<open>Helpers of the host language\<close>

fun expr_line :: "expr \<Rightarrow> nat" where
  "expr_line (Literal v l) = l"
| "expr_line (Identifier x l) = l"
| "expr_line (ArrayLiteral es l) = l"
| "expr_line (ArrayAccess a i l) = l"
| "expr_line (Grouping e l) = l"
| "expr_line (UnaryExpression op e l) = l"
| "expr_line (BinaryExpression a op b l) = l"
| "expr_line (FunctionCall f as l) = l"

text \<open>
  The fields of the class \<open>Interpreter\<close> that never change: the statements, the
  maps \<open>this.modules\<close> and \<open>this.functions\<close> by lower-case name, and the runtime.
\<close>

record Interpreter =
  statements :: "stmt list"
  modules_map :: "(string \<times> stmt) list"
  functions_map :: "(string \<times> stmt) list"
  runtime :: js_runtime

text \<open>The constructor: \<open>Map.set\<close> replaces the value of a key already there.\<close>

fun register_modules :: "stmt list \<Rightarrow> (string \<times> stmt) list \<Rightarrow> (string \<times> stmt) list" where
  "register_modules [] m = m"
| "register_modules (ModuleStatement name ps b l # rest) m =
     register_modules rest (AList.update (toLowerCase name) (ModuleStatement name ps b l) m)"
| "register_modules (other # rest) m = register_modules rest m"

fun register_functions :: "stmt list \<Rightarrow> (string \<times> stmt) list \<Rightarrow> (string \<times> stmt) list" where
  "register_functions [] m = m"
| "register_functions (FunctionDeclaration name t ps b l # rest) m =
     register_functions rest
       (AList.update (toLowerCase name) (FunctionDeclaration name t ps b l) m)"
| "register_functions (other # rest) m = register_functions rest m"

definition new_Interpreter :: "js_runtime \<Rightarrow> stmt list \<Rightarrow> Interpreter" where
  "new_Interpreter rt stmts =
     \<lparr>statements = stmts, modules_map = register_modules stmts [],
      functions_map = register_functions stmts [], runtime = rt\<rparr>"

text \<open>
  The state when a run starts: the global environment alone, nothing shown yet; the
  host's answers to come are the two arguments.
\<close>

definition initial_state :: "bool list \<Rightarrow> string option list \<Rightarrow> state" where
  "initial_state stops ins =
     \<lparr>envs = [\<lparr>values_map = [], enclosing = None\<rparr>], cells = [], arrays = [],
      environment = 0, events = [], yields = [], stop_polls = stops, inputs = ins,
      builtin_calls = 0\<rparr>"

definition checkStopSignal :: "state \<Rightarrow> unit result" where
  "checkStopSignal s =
     (case stop_polls s of
        [] \<Rightarrow> (Ok (), s)
      | b # bs \<Rightarrow>
          if b then (Throw ProgramStoppedError, s\<lparr>stop_polls := bs\<rparr>)
          else (Ok (), s\<lparr>stop_polls := bs\<rparr>))"

definition displayProvider :: "jsval list \<Rightarrow> state \<Rightarrow> state" where
  "displayProvider vs s = s\<lparr>events := events s @ [Display vs]\<rparr>"

subsection \<open>Operators\<close>

definition binary_operator ::
  "js_runtime \<Rightarrow> string \<Rightarrow> jsval \<Rightarrow> jsval \<Rightarrow> nat \<Rightarrow> state \<Rightarrow> jsval result" where
  "binary_operator rt operator left right line s =
     (let h = arrays s; op = toLowerCase operator in
      if op = ''+'' then (Ok (js_add rt h left right), s)
      else if op = ''-'' then (Ok (js_arith num_sub rt h left right), s)
      else if op = ''*'' then (Ok (js_arith num_mul rt h left right), s)
      else if op = ''/'' then
        (if right = VNum (Fin 0) then (Throw (InterpreterError ''Division by zero.'' line), s)
         else (Ok (js_arith num_div rt h left right), s))
      else if op = ''mod'' \<or> op = ''%'' then
        (if \<not> is_number left \<or> \<not> is_number right
         then (Throw (InterpreterError ''Operands for MOD must be numbers.'' line), s)
         else if right = VNum (Fin 0)
         then (Throw (InterpreterError ''Division by zero in MOD operation.'' line), s)
         else (Ok (js_arith num_mod rt h left right), s))
      else if op = ''>'' then (Ok (VBool (js_gt rt h left right)), s)
      else if op = ''<'' then (Ok (VBool (js_lt rt h left right)), s)
      else if op = ''>='' then (Ok (VBool (js_ge rt h left right)), s)
      else if op = ''<='' then (Ok (VBool (js_le rt h left right)), s)
      else if op = ''=='' then (Ok (VBool (js_loose_eq rt h left right)), s)
      else if op = ''!='' then (Ok (VBool (js_loose_ne rt h left right)), s)
      else if op = ''and'' then (Ok (js_and left right), s)
      else if op = ''or'' then (Ok (js_or left right), s)
      else (Throw (InterpreterError (''Unknown operator: '' @ operator) line), s))"

definition unary_operator ::
  "js_runtime \<Rightarrow> string \<Rightarrow> jsval \<Rightarrow> nat \<Rightarrow> state \<Rightarrow> jsval result" where
  "unary_operator rt operator unaryRight line s =
     (let op = toLowerCase operator in
      if op = ''-'' then (Ok (VNum (num_neg (ToNumber rt (arrays s) unaryRight))), s)
      else if op = ''not'' then (Ok (VBool (\<not> ToBoolean unaryRight)), s)
      else (Throw (InterpreterError (''Unknown unary operator: '' @ operator) line), s))"

text \<open>
  The test of an index: a number, an integer, not negative, below the length.
\<close>

definition valid_index :: "jsval \<Rightarrow> nat \<Rightarrow> nat option" where
  "valid_index index len =
     (case index of
        VNum (Fin x) \<Rightarrow>
          if x = of_int \<lfloor>x\<rfloor> \<and> 0 \<le> x \<and> x < of_nat len then Some (nat \<lfloor>x\<rfloor>) else None
      | _ \<Rightarrow> None)"

definition index_error :: "js_runtime \<Rightarrow> array_heap \<Rightarrow> jsval \<Rightarrow> nat \<Rightarrow> nat \<Rightarrow> error" where
  "index_error rt h index len line =
     InterpreterError (''Array index out of bounds. Index '' @ ToString rt h index
        @ '' is not valid for array of size '' @ show_nat len @ ''.'') line"

definition non_array_error :: "nat \<Rightarrow> error" where
  "non_array_error line =
     InterpreterError ''Cannot access an element of a non-array variable.'' line"

definition array_read :: "js_runtime \<Rightarrow> jsval \<Rightarrow> jsval \<Rightarrow> nat \<Rightarrow> state \<Rightarrow> jsval result" where
  "array_read rt array index line s =
     (case array of
        VArr a \<Rightarrow>
          (case valid_index index (length (arrays s ! a)) of
             None \<Rightarrow> (Throw (index_error rt (arrays s) index (length (arrays s ! a)) line), s)
           | Some k \<Rightarrow> (Ok (arrays s ! a ! k), s))
      | _ \<Rightarrow> (Throw (non_array_error line), s))"

definition array_write ::
  "js_runtime \<Rightarrow> jsval \<Rightarrow> jsval \<Rightarrow> jsval \<Rightarrow> nat \<Rightarrow> state \<Rightarrow> unit result" where
  "array_write rt array index v line s =
     (case array of
        VArr a \<Rightarrow>
          (case valid_index index (length (arrays s ! a)) of
             None \<Rightarrow> (Throw (index_error rt (arrays s) index (length (arrays s ! a)) line), s)
           | Some k \<Rightarrow> (Ok (), s\<lparr>arrays := (arrays s)[a := (arrays s ! a)[k := v]]\<rparr>))
      | _ \<Rightarrow> (Throw (non_array_error line), s))"

subsection \<open>Built-in functions\<close>

datatype arg_count = Exactly nat | OneOf "nat list"

definition builtInFunctions :: "(string \<times> arg_count) list" where
  "builtInFunctions =
    [(''sqrt'', Exactly 1), (''round'', Exactly 1), (''abs'', Exactly 1), (''cos'', Exactly 1),
     (''sin'', Exactly 1), (''tan'', Exactly 1), (''power'', Exactly 2), (''random'', Exactly 2),
     (''tointeger'', Exactly 1), (''toreal'', Exactly 1), (''stringtointeger'', Exactly 1),
     (''stringtoreal'', Exactly 1), (''isinteger'', Exactly 1), (''isreal'', Exactly 1),
     (''currencyformat'', Exactly 1), (''length'', Exactly 1), (''toupper'', Exactly 1),
     (''tolower'', Exactly 1), (''append'', Exactly 2), (''contains'', Exactly 2),
     (''substring'', OneOf [2, 3])]"

definition arg_count_ok :: "arg_count \<Rightarrow> nat \<Rightarrow> bool" where
  "arg_count_ok expected actual =
     (case expected of Exactly k \<Rightarrow> actual = k | OneOf ks \<Rightarrow> actual \<in> set ks)"

fun join_or :: "nat list \<Rightarrow> string" where
  "join_or [] = []"
| "join_or [k] = show_nat k"
| "join_or (k # ks) = show_nat k @ '' or '' @ join_or ks"

definition expectedMessage :: "arg_count \<Rightarrow> string" where
  "expectedMessage expected =
     (case expected of Exactly k \<Rightarrow> show_nat k | OneOf ks \<Rightarrow> ''either '' @ join_or ks)"

definition call_builtin ::
  "js_runtime \<Rightarrow> string \<Rightarrow> jsval list \<Rightarrow> nat \<Rightarrow> state \<Rightarrow> jsval result" where
  "call_builtin rt calleeName evaluatedArgs line s =
     (let s' = s\<lparr>builtin_calls := builtin_calls s + 1\<rparr> in
      case builtin_impl rt calleeName (builtin_calls s) (arrays s) evaluatedArgs of
        Inl msg \<Rightarrow>
          (Throw (InterpreterError
             (''Error in built-in function '' @ [CHR 0x27] @ calleeName @ [CHR 0x27] @ '': '' @ msg)
             line), s')
      | Inr v \<Rightarrow> (Ok v, s'))"

subsection \<open>Input\<close>

text \<open>
  \<open>validateAndParseInput\<close>: \<open>None\<close> when the input is not valid, else the value.
  \<open>integer_text\<close> is the test of \<^verbatim>\<open>/^-?\d+$/\<close>, \<open>real_text\<close> the test of
  \<^verbatim>\<open>/^-?\d+(\.\d+)?$/\<close>; \<open>parseInt\<close> and \<open>parseFloat\<close> are applied to texts
  that passed the test only.
\<close>

definition strip_minus :: "string \<Rightarrow> string" where
  "strip_minus t = (case t of [] \<Rightarrow> [] | c # cs \<Rightarrow> if c = CHR ''-'' then cs else t)"

definition has_minus :: "string \<Rightarrow> bool" where
  "has_minus t = (case t of [] \<Rightarrow> False | c # cs \<Rightarrow> c = CHR ''-'')"

definition integer_text :: "string \<Rightarrow> bool" where
  "integer_text t = (strip_minus t \<noteq> [] \<and> all_digits (strip_minus t))"

definition real_text :: "string \<Rightarrow> bool" where
  "real_text t =
     (let u = strip_minus t; ip = takeWhile is_digit u; r = dropWhile is_digit u
      in ip \<noteq> [] \<and> (r = [] \<or> (hd r = CHR ''.'' \<and> tl r \<noteq> [] \<and> all_digits (tl r))))"

definition parseInt10 :: "string \<Rightarrow> jsnum" where
  "parseInt10 t =
     (if has_minus t then Fin (- of_nat (digits_value (strip_minus t)))
      else Fin (of_nat (digits_value t)))"

definition parseFloat_decimal :: "string \<Rightarrow> jsnum" where
  "parseFloat_decimal t =
     (let u = strip_minus t; ip = takeWhile is_digit u; r = dropWhile is_digit u;
          v = of_nat (digits_value ip)
              + (if r = [] then 0 else of_nat (digits_value (tl r)) / 10 ^ length (tl r))
      in Fin (if has_minus t then - v else v))"

definition validateAndParseInput :: "string \<Rightarrow> string \<Rightarrow> jsval option" where
  "validateAndParseInput input dt =
     (let trimmedInput = trim input; ty = toLowerCase dt in
      if ty = ''integer'' then
        (if integer_text trimmedInput then Some (VNum (parseInt10 trimmedInput)) else None)
      else if ty = ''real'' then
        (if real_text trimmedInput then Some (VNum (parseFloat_decimal trimmedInput)) else None)
      else Some (VStr input))"

lemma checkStopSignal_inputs:
  "checkStopSignal s = (r, s') \<Longrightarrow> inputs s' = inputs s"
  by (auto simp: checkStopSignal_def split: list.splits if_splits)

text \<open>
  The loop of the \<open>Input\<close> statement.  Every turn asks the host once; when the host
  has no answer left the run waits for ever.
\<close>

function input_loop :: "string \<Rightarrow> string \<Rightarrow> nat \<Rightarrow> state \<Rightarrow> unit result" where
  "input_loop dt identifier line s =
     and_then (checkStopSignal s) (\<lambda>_ s1.
       let s2 = s1\<lparr>events := events s1
                  @ [Prompt (''Enter a value for '' @ identifier @ '' ('' @ dt @ ''):'')]\<rparr>
       in case inputs s2 of
            [] \<Rightarrow> (Pending, s2)
          | rawInput # rest \<Rightarrow>
              (case rawInput of
                 None \<Rightarrow>
                   and_then (checkStopSignal (s2\<lparr>inputs := rest\<rparr>)) (\<lambda>_ s3.
                     (Ok (), displayProvider
                        [VStr (''Input for '' @ identifier @ '' cancelled.'')] s3))
               | Some raw \<Rightarrow>
                   (case validateAndParseInput raw dt of
                      Some v \<Rightarrow>
                        and_then (assign (environment s2) identifier v line (s2\<lparr>inputs := rest\<rparr>))
                          (\<lambda>_ s3. (Ok (), s3))
                    | None \<Rightarrow>
                        input_loop dt identifier line
                          (displayProvider
                             [VStr (''Invalid input. Please enter a valid '' @ dt @ ''.'')]
                             (s2\<lparr>inputs := rest\<rparr>)))))"
  by pat_completeness auto
termination
  by (relation "measure (\<lambda>(dt, identifier, line, s). length (inputs s))")
     (auto simp: displayProvider_def dest: checkStopSignal_inputs)

declare input_loop.simps [simp del]

subsection \<open>Expressions and statements\<close>

definition num_le :: "jsnum \<Rightarrow> jsnum \<Rightarrow> bool" where
  "num_le a b = (a \<noteq> NaN \<and> b \<noteq> NaN \<and> \<not> num_less b a)"

definition size_error :: "nat \<Rightarrow> error" where
  "size_error line = InterpreterError ''Array size must be a non-negative integer.'' line"

text \<open>
  The size of an array as a natural number, when it is a number, an integer and not
  negative.
\<close>

definition valid_size :: "jsval \<Rightarrow> nat option" where
  "valid_size sz =
     (case sz of
        VNum (Fin x) \<Rightarrow> if x = of_int \<lfloor>x\<rfloor> \<and> 0 \<le> x then Some (nat \<lfloor>x\<rfloor>) else None
      | _ \<Rightarrow> None)"

definition too_many_error :: "string \<Rightarrow> nat \<Rightarrow> nat \<Rightarrow> nat \<Rightarrow> error" where
  "too_many_error identifier k n line =
     InterpreterError (''Too many initializers for array \"'' @ identifier @ ''\". Expected ''
        @ show_nat k @ '', got '' @ show_nat n @ ''.'') line"

definition undefined_name_error :: error where
  "undefined_name_error =
     TypeError (''Cannot read properties of undefined (reading '' @ [CHR 0x27] @ ''toLowerCase''
        @ [CHR 0x27] @ '')'')"

text \<open>
  The evaluator.  The first number is fuel: every call takes one unit, and a
  computation that has none left ends with \<open>Timeout\<close>.  The source has no such
  bound: \<open>Timeout\<close> is no result of the program.

  \<open>evaluate_all\<close> is \<^verbatim>\<open>Promise.all(es.map(e => this.evaluate(e)))\<close>, taken
  from left to right.  \<open>declare_all\<close>, \<open>display_values\<close>, \<open>execute_statements\<close> and
  \<open>bind_parameters\<close> are the \<open>for\<close> loops of \<open>executeStatementGenerator\<close>,
  \<open>executeBlockGenerator\<close> and \<open>executeCallGenerator\<close>; \<open>while_loop\<close>,
  \<open>do_loop\<close> and \<open>for_loop\<close> the loops of the three loop statements.
\<close>

function evaluate :: "Interpreter \<Rightarrow> nat \<Rightarrow> expr \<Rightarrow> state \<Rightarrow> jsval result"
and evaluate_all :: "Interpreter \<Rightarrow> nat \<Rightarrow> expr list \<Rightarrow> state \<Rightarrow> jsval list result"
and executeStatementGenerator :: "Interpreter \<Rightarrow> nat \<Rightarrow> stmt \<Rightarrow> state \<Rightarrow> unit result"
and declare_all ::
  "Interpreter \<Rightarrow> nat \<Rightarrow> string \<Rightarrow> bool \<Rightarrow> nat \<Rightarrow> Declarator list \<Rightarrow> state \<Rightarrow> unit result"
and display_values ::
  "Interpreter \<Rightarrow> nat \<Rightarrow> display_item list \<Rightarrow> jsval list \<Rightarrow> state \<Rightarrow> jsval list result"
and while_loop :: "Interpreter \<Rightarrow> nat \<Rightarrow> expr \<Rightarrow> stmt list \<Rightarrow> state \<Rightarrow> unit result"
and do_loop :: "Interpreter \<Rightarrow> nat \<Rightarrow> bool \<Rightarrow> expr \<Rightarrow> stmt list \<Rightarrow> state \<Rightarrow> unit result"
and for_loop ::
  "Interpreter \<Rightarrow> nat \<Rightarrow> string \<Rightarrow> nat \<Rightarrow> nat \<Rightarrow> jsnum \<Rightarrow> jsnum \<Rightarrow> stmt list \<Rightarrow> state
     \<Rightarrow> unit result"
and executeBlockGenerator ::
  "Interpreter \<Rightarrow> nat \<Rightarrow> stmt list \<Rightarrow> nat \<Rightarrow> state \<Rightarrow> unit result"
and execute_statements :: "Interpreter \<Rightarrow> nat \<Rightarrow> stmt list \<Rightarrow> state \<Rightarrow> unit result"
and executeCallGenerator ::
  "Interpreter \<Rightarrow> nat \<Rightarrow> stmt \<Rightarrow> expr list \<Rightarrow> nat \<Rightarrow> state \<Rightarrow> unit result"
and bind_parameters ::
  "Interpreter \<Rightarrow> nat \<Rightarrow> nat \<Rightarrow> (Parameter \<times> expr) list \<Rightarrow> nat \<Rightarrow> state \<Rightarrow> unit result"
where
  "evaluate I 0 ex s = (Timeout, s)"
| "evaluate I (Suc n) ex s =
     (case ex of
        Literal v l \<Rightarrow> (Ok v, s)
      | Identifier name l \<Rightarrow> lift (get s (environment s) name l) s
      | BinaryExpression left operator right l \<Rightarrow>
          and_then (evaluate I n left s) (\<lambda>lv s1.
          and_then (evaluate I n right s1) (\<lambda>rv s2.
            binary_operator (runtime I) operator lv rv l s2))
      | UnaryExpression operator right l \<Rightarrow>
          and_then (evaluate I n right s) (\<lambda>rv s1.
            unary_operator (runtime I) operator rv l s1)
      | Grouping e l \<Rightarrow> evaluate I n e s
      | FunctionCall callee args l \<Rightarrow>
          (let calleeName = toLowerCase callee in
           case map_of builtInFunctions calleeName of
             Some expectedArgCount \<Rightarrow>
               if \<not> arg_count_ok expectedArgCount (length args)
               then (Throw (InterpreterError
                      (''Built-in function \"'' @ callee @ ''\" expects ''
                       @ expectedMessage expectedArgCount @ '' arguments, but got ''
                       @ show_nat (length args) @ ''.'') l), s)
               else and_then (evaluate_all I n args s) (\<lambda>evaluatedArgs s1.
                      call_builtin (runtime I) calleeName evaluatedArgs l s1)
           | None \<Rightarrow>
               (case map_of (functions_map I) calleeName of
                  None \<Rightarrow>
                    (Throw (InterpreterError (''Function \"'' @ callee @ ''\" not found.'') l), s)
                | Some funcToCall \<Rightarrow>
                    (case executeCallGenerator I n funcToCall args l s of
                       (Ok u, s1) \<Rightarrow>
                         (Throw (InterpreterError
                            (''Function \"'' @ callee_name funcToCall
                             @ ''\" did not return a value.'') l),
                          s1\<lparr>yields := yields s\<rparr>)
                     | (Throw e, s1) \<Rightarrow>
                         (case e of
                            ReturnError v \<Rightarrow> (Ok v, s1\<lparr>yields := yields s\<rparr>)
                          | _ \<Rightarrow> (Throw e, s1\<lparr>yields := yields s\<rparr>))
                     | (Pending, s1) \<Rightarrow> (Pending, s1\<lparr>yields := yields s\<rparr>)
                     | (Timeout, s1) \<Rightarrow> (Timeout, s1\<lparr>yields := yields s\<rparr>))))
      | ArrayLiteral elements l \<Rightarrow>
          and_then (evaluate_all I n elements s) (\<lambda>vs s1.
            (Ok (VArr (length (arrays s1))), s1\<lparr>arrays := arrays s1 @ [vs]\<rparr>))
      | ArrayAccess array index l \<Rightarrow>
          and_then (evaluate I n array s) (\<lambda>a s1.
          and_then (evaluate I n index s1) (\<lambda>i s2.
            array_read (runtime I) a i l s2)))"
| "evaluate_all I 0 es s = (Timeout, s)"
| "evaluate_all I (Suc n) es s =
     (case es of
        [] \<Rightarrow> (Ok [], s)
      | e # rest \<Rightarrow>
          and_then (evaluate I n e s) (\<lambda>v s1.
          and_then (evaluate_all I n rest s1) (\<lambda>vs s2. (Ok (v # vs), s2))))"
| "executeStatementGenerator I 0 st s = (Timeout, s)"
| "executeStatementGenerator I (Suc n) st s0 =
     and_then (checkStopSignal s0) (\<lambda>_ s00.
       let s = s00\<lparr>yields := yields s00
                 @ [\<lparr>lineNumber = stmt_line st, scope = serialize s00 (environment s00)\<rparr>]\<rparr>
       in case st of
         VariableDeclaration dt declarations isConst line \<Rightarrow>
           declare_all I n dt isConst line declarations s
       | Assignment lvalue value line \<Rightarrow>
           and_then (evaluate I n value s) (\<lambda>v s1.
             case lvalue of
               Identifier name l \<Rightarrow>
                 and_then (assign (environment s1) name v line s1) (\<lambda>_ s2. (Ok (), s2))
             | ArrayAccess array index l \<Rightarrow>
                 and_then (evaluate I n array s1) (\<lambda>a s2.
                 and_then (evaluate I n index s2) (\<lambda>i s3.
                   array_write (runtime I) a i v l s3))
             | _ \<Rightarrow> (Throw (InterpreterError ''Invalid assignment target.'' line), s1))
       | DisplayStatement vals line \<Rightarrow>
           and_then (display_values I n vals [] s) (\<lambda>evaluatedValues s1.
             (Ok (), displayProvider evaluatedValues s1))
       | InputStatement identifier line \<Rightarrow>
           (case getEntry s (environment s) identifier line of
              Inl e \<Rightarrow> (Throw e, s)
            | Inr inputVarEntry \<Rightarrow>
                input_loop (dataType (cells s ! entry inputVarEntry)) identifier line s)
       | IfStatement condition thenBranch elseBranch line \<Rightarrow>
           and_then (evaluate I n condition s) (\<lambda>c s1.
             if ToBoolean c
             then (case new_Environment (Some (environment s1)) s1 of
                     (e, s2) \<Rightarrow> executeBlockGenerator I n thenBranch e s2)
             else (case elseBranch of
                     Some eb \<Rightarrow>
                       (case new_Environment (Some (environment s1)) s1 of
                          (e, s2) \<Rightarrow> executeBlockGenerator I n eb e s2)
                   | None \<Rightarrow> (Ok (), s1)))
       | DoWhileStatement condition body line \<Rightarrow> do_loop I n False condition body s
       | DoUntilStatement condition body line \<Rightarrow> do_loop I n True condition body s
       | WhileStatement condition body line \<Rightarrow> while_loop I n condition body s
       | ForStatement identifier start endExpr body line \<Rightarrow>
           (case new_Environment (Some (environment s)) s of
              (forScope, s1) \<Rightarrow>
                and_then (evaluate I n start s1) (\<lambda>startv s2.
                and_then (evaluate I n endExpr s2) (\<lambda>endv s3.
                  case (startv, endv) of
                    (VNum a, VNum b) \<Rightarrow>
                      and_then (define_env forScope identifier False ''Real'' startv s3)
                        (\<lambda>_ s4. for_loop I n identifier line forScope a b body s4)
                  | _ \<Rightarrow>
                      (Throw (InterpreterError ''For loop bounds must be numbers'' line), s3))))
       | CallStatement name args line \<Rightarrow>
           (case map_of (modules_map I) (toLowerCase name) of
              None \<Rightarrow> (Throw (InterpreterError (''Module \"'' @ name @ ''\" not found.'') line), s)
            | Some moduleToCall \<Rightarrow> executeCallGenerator I n moduleToCall args line s)
       | ReturnStatement value line \<Rightarrow>
           and_then (evaluate I n value s) (\<lambda>returnValue s1. (Throw (ReturnError returnValue), s1))
       | FunctionDeclaration name t ps b line \<Rightarrow> (Ok (), s)
       | ModuleStatement name ps b line \<Rightarrow> (Ok (), s))"
| "declare_all I 0 dt isConst line ds s = (Timeout, s)"
| "declare_all I (Suc n) dt isConst line ds s =
     (case ds of
        [] \<Rightarrow> (Ok (), s)
      | Declarator identifier sizeOpt initializer # rest \<Rightarrow>
          and_then
            (case sizeOpt of
               Some sizeExpr \<Rightarrow>
                 and_then (evaluate I n sizeExpr s) (\<lambda>sizev s1.
                   case valid_size sizev of
                     None \<Rightarrow> (Throw (size_error (expr_line sizeExpr)), s1)
                   | Some k \<Rightarrow>
                       if 4294967295 < k then (Throw (RangeError ''Invalid array length''), s1)
                       else
                         (let a = length (arrays s1);
                              s2 = s1\<lparr>arrays := arrays s1 @ [replicate k VNull]\<rparr>
                          in case initializer of
                               None \<Rightarrow> (Ok (VArr a), s2)
                             | Some ini \<Rightarrow>
                                 (case ini of
                                    ArrayLiteral elements l \<Rightarrow>
                                      if k < length elements
                                      then (Throw (too_many_error identifier k (length elements) l), s2)
                                      else and_then (evaluate_all I n elements s2) (\<lambda>vs s3.
                                             (Ok (VArr a),
                                              s3\<lparr>arrays := (arrays s3)
                                                   [a := vs @ drop (length vs) (arrays s3 ! a)]\<rparr>))
                                  | _ \<Rightarrow>
                                      (Throw (InterpreterError
                                         ''Array initializer must be a comma-separated list of values.''
                                         (expr_line ini)), s2))))
             | None \<Rightarrow>
                 (case initializer of
                    None \<Rightarrow> (Ok VNull, s)
                  | Some ini \<Rightarrow>
                      (case ini of
                         ArrayLiteral elements l \<Rightarrow>
                           (Throw (InterpreterError
                              ''Cannot initialize a scalar variable with an array literal.'' l), s)
                       | _ \<Rightarrow> evaluate I n ini s)))
            (\<lambda>initialValue s1.
               if isConst \<and> initialValue = VNull
               then (Throw (InterpreterError
                       (''Constant \"'' @ identifier @ ''\" must be initialized.'') line), s1)
               else and_then (define_env (environment s1) identifier isConst dt initialValue s1)
                      (\<lambda>_ s2. declare_all I n dt isConst line rest s2)))"
| "display_values I 0 items acc s = (Timeout, s)"
| "display_values I (Suc n) items acc s =
     (case items of
        [] \<Rightarrow> (Ok acc, s)
      | valueNode # rest \<Rightarrow>
          and_then (checkStopSignal s) (\<lambda>_ s1.
            case valueNode of
              TapMarker \<Rightarrow> display_values I n rest (acc @ [VStr ''    '']) s1
            | Item e \<Rightarrow>
                and_then (evaluate I n e s1) (\<lambda>v s2.
                  display_values I n rest (acc @ [v]) s2)))"
| "while_loop I 0 condition body s = (Timeout, s)"
| "while_loop I (Suc n) condition body s =
     and_then (evaluate I n condition s) (\<lambda>c s1.
       if ToBoolean c
       then and_then (checkStopSignal s1) (\<lambda>_ s2.
              case new_Environment (Some (environment s2)) s2 of
                (e, s3) \<Rightarrow>
                  and_then (executeBlockGenerator I n body e s3) (\<lambda>_ s4.
                    while_loop I n condition body s4))
       else (Ok (), s1))"
| "do_loop I 0 until condition body s = (Timeout, s)"
| "do_loop I (Suc n) until condition body s =
     and_then (checkStopSignal s) (\<lambda>_ s1.
       case new_Environment (Some (environment s1)) s1 of
         (e, s2) \<Rightarrow>
           and_then (executeBlockGenerator I n body e s2) (\<lambda>_ s3.
           and_then (evaluate I n condition s3) (\<lambda>c s4.
             if ToBoolean c \<noteq> until then do_loop I n until condition body s4
             else (Ok (), s4))))"
| "for_loop I 0 identifier line forScope i endv body s = (Timeout, s)"
| "for_loop I (Suc n) identifier line forScope i endv body s =
     (if num_le i endv
      then and_then (checkStopSignal s) (\<lambda>_ s1.
           and_then (assign forScope identifier (VNum i) line s1) (\<lambda>_ s2.
             case new_Environment (Some forScope) s2 of
               (e, s3) \<Rightarrow>
                 and_then (executeBlockGenerator I n body e s3) (\<lambda>_ s4.
                   for_loop I n identifier line forScope (num_add i (Fin 1)) endv body s4)))
      else (Ok (), s))"
| "executeBlockGenerator I 0 stmts env s = (Timeout, s)"
| "executeBlockGenerator I (Suc n) stmts env s =
     (let previousEnv = environment s in
      case execute_statements I n stmts (s\<lparr>environment := env\<rparr>) of
        (r, s1) \<Rightarrow> (r, s1\<lparr>environment := previousEnv\<rparr>))"
| "execute_statements I 0 stmts s = (Timeout, s)"
| "execute_statements I (Suc n) stmts s =
     (case stmts of
        [] \<Rightarrow> (Ok (), s)
      | st # rest \<Rightarrow>
          and_then (checkStopSignal s) (\<lambda>_ s1.
          and_then (executeStatementGenerator I n st s1) (\<lambda>_ s2.
            execute_statements I n rest s2)))"
| "executeCallGenerator I 0 callee args line s = (Timeout, s)"
| "executeCallGenerator I (Suc n) callee args line s =
     (if length args \<noteq> length (callee_parameters callee)
      then (Throw (InterpreterError
              (''Expected '' @ show_nat (length (callee_parameters callee))
               @ '' arguments but got '' @ show_nat (length args) @ ''.'') line), s)
      else (case new_Environment (Some 0) s of
              (calleeEnv, s1) \<Rightarrow>
                and_then (bind_parameters I n calleeEnv (zip (callee_parameters callee) args) line s1)
                  (\<lambda>_ s2. executeBlockGenerator I n (callee_body callee) calleeEnv s2)))"
| "bind_parameters I 0 calleeEnv pas line s = (Timeout, s)"
| "bind_parameters I (Suc n) calleeEnv pas line s =
     (case pas of
        [] \<Rightarrow> (Ok (), s)
      | (param, arg) # rest \<Rightarrow>
          if isReference param then
            (case arg of
               Identifier varName l \<Rightarrow>
                 and_then (lift (getEntry s (environment s) varName line) s) (\<lambda>valueEntry s1.
                 and_then (defineReference calleeEnv (pname param) valueEntry s1) (\<lambda>_ s2.
                   bind_parameters I n calleeEnv rest line s2))
             | _ \<Rightarrow>
                 (Throw (InterpreterError
                    (''Argument for reference parameter \"'' @ pname param
                     @ ''\" must be a variable.'') line), s))
          else
            and_then (evaluate I n arg s) (\<lambda>argValue s1.
            and_then
              (if pdataType param = ''auto''
               then (case arg of
                       Identifier name l \<Rightarrow>
                         and_then (lift (getEntry s1 (environment s1) name l) s1)
                           (\<lambda>originalEntry s2. (Ok (dataType (cells s2 ! entry originalEntry)), s2))
                     | _ \<Rightarrow> (Throw undefined_name_error, s1))
               else (Ok (pdataType param), s1))
              (\<lambda>paramDataType s2.
                 and_then (define_env calleeEnv (pname param) False paramDataType argValue s2)
                   (\<lambda>_ s3. bind_parameters I n calleeEnv rest line s3))))"
  by pat_completeness auto

text \<open>Every call is on less fuel: the fuel is the second argument of each function.\<close>

termination
  by (relation "measure
     (case_sum
      (case_sum
       (case_sum (\<lambda>p. fst (snd p))
        (case_sum (\<lambda>p. fst (snd p)) (\<lambda>p. fst (snd p))))
       (case_sum (\<lambda>p. fst (snd p))
        (case_sum (\<lambda>p. fst (snd p)) (\<lambda>p. fst (snd p)))))
      (case_sum
       (case_sum (\<lambda>p. fst (snd p))
        (case_sum (\<lambda>p. fst (snd p)) (\<lambda>p. fst (snd p))))
       (case_sum (\<lambda>p. fst (snd p))
        (case_sum (\<lambda>p. fst (snd p)) (\<lambda>p. fst (snd p))))))") simp_all

declare evaluate.simps [simp del] evaluate_all.simps [simp del]
  executeStatementGenerator.simps [simp del] declare_all.simps [simp del]
  display_values.simps [simp del] while_loop.simps [simp del] do_loop.simps [simp del]
  for_loop.simps [simp del] executeBlockGenerator.simps [simp del]
  execute_statements.simps [simp del] executeCallGenerator.simps [simp del]
  bind_parameters.simps [simp del]

subsection \<open>Running a program\<close>

text \<open>
  The two loops of \<open>runGenerator\<close> over the top-level statements, and
  \<open>runGenerator\<close> itself.  \<open>run\<close> exhausts the generator and drops what it yields;
  in debug mode the host receives the yields.
\<close>

fun is_VariableDeclaration :: "stmt \<Rightarrow> bool" where
  "is_VariableDeclaration (VariableDeclaration dt ds c l) = True"
| "is_VariableDeclaration other = False"

fun is_FunctionDeclaration :: "stmt \<Rightarrow> bool" where
  "is_FunctionDeclaration (FunctionDeclaration name t ps b l) = True"
| "is_FunctionDeclaration other = False"

fun run_declarations :: "Interpreter \<Rightarrow> nat \<Rightarrow> stmt list \<Rightarrow> state \<Rightarrow> unit result" where
  "run_declarations I n [] s = (Ok (), s)"
| "run_declarations I n (st # rest) s =
     (if is_VariableDeclaration st
      then and_then (executeStatementGenerator I n st s) (\<lambda>_ s1. run_declarations I n rest s1)
      else run_declarations I n rest s)"

fun run_script :: "Interpreter \<Rightarrow> nat \<Rightarrow> stmt list \<Rightarrow> state \<Rightarrow> unit result" where
  "run_script I n [] s = (Ok (), s)"
| "run_script I n (st # rest) s =
     (if \<not> is_FunctionDeclaration st
      then and_then (executeStatementGenerator I n st s) (\<lambda>_ s1. run_script I n rest s1)
      else run_script I n rest s)"

definition main_required :: error where
  "main_required =
     InterpreterError
       ([CHR ''A'', CHR '' '', CHR 0x27] @ ''main'' @ [CHR 0x27]
        @ '' module is required when other modules are defined.'') 1"

definition runGenerator :: "Interpreter \<Rightarrow> nat \<Rightarrow> state \<Rightarrow> unit result" where
  "runGenerator I n s =
     and_then (checkStopSignal s) (\<lambda>_ s1.
       if modules_map I \<noteq> [] then
         (case map_of (modules_map I) ''main'' of
            None \<Rightarrow> (Throw main_required, s1)
          | Some mainModule \<Rightarrow>
              and_then (run_declarations I n (statements I) s1) (\<lambda>_ s2.
                executeCallGenerator I n mainModule [] 1 s2))
       else run_script I n (statements I) s1)"

definition run :: "Interpreter \<Rightarrow> nat \<Rightarrow> state \<Rightarrow> unit result" where
  "run I n s = (case runGenerator I n s of (r, s1) \<Rightarrow> (r, s1\<lparr>yields := yields s\<rparr>))"

section \<open>Programs and notions of the specification\<close>

text \<open>
  A runtime for closed examples: the programs below call no built-in function and
  print no number or array as text, so its three functions are never applied.
\<close>

definition idle_runtime :: js_runtime where
  "idle_runtime =
     \<lparr>number_to_string = (\<lambda>x. []), array_to_string = (\<lambda>h a. []),
      builtin_impl = (\<lambda>name k h args. Inl [])\<rparr>"

text \<open>
  The decimal spelling of an integer: its digits, after a minus sign when it is
  negative.
\<close>

definition decimal_spelling :: "int \<Rightarrow> string" where
  "decimal_spelling i = (if i < 0 then CHR ''-'' # show_nat (nat (- i)) else show_nat (nat i))"

text \<open>
  The syntax tree of the program
  \<^verbatim>\<open>Module main()\<close> /
  \<^verbatim>\<open>Declare Integer x=1\<close> /
  \<^verbatim>\<open>Set x=x+1\<close> /
  \<^verbatim>\<open>Set x=x*2\<close> /
  \<^verbatim>\<open>Display x\<close> /
  \<^verbatim>\<open>End Module\<close>,
  one statement on each line, as \<open>Parser.parse\<close> builds it: a keyword token carries
  the keyword in lower case, so the data type is \<open>integer\<close>.
\<close>

definition debug_program :: "stmt list" where
  "debug_program =
     [ModuleStatement ''main'' []
        [VariableDeclaration ''integer''
           [Declarator ''x'' None (Some (Literal (VNum (Fin 1)) 2))] False 2,
         Assignment (Identifier ''x'' 3)
           (BinaryExpression (Identifier ''x'' 3) ''+'' (Literal (VNum (Fin 1)) 3) 3) 3,
         Assignment (Identifier ''x'' 4)
           (BinaryExpression (Identifier ''x'' 4) ''*'' (Literal (VNum (Fin 2)) 4) 4) 4,
         DisplayStatement [Item (Identifier ''x'' 5)] 5] 1]"

text \<open>
  The syntax tree of the program
  \<^verbatim>\<open>Module show(x)\<close> /
  \<^verbatim>\<open>Display x\<close> /
  \<^verbatim>\<open>End Module\<close> /
  \<^verbatim>\<open>Module main()\<close> /
  \<^verbatim>\<open>Call show(5)\<close> /
  \<^verbatim>\<open>End Module\<close>:
  the parameter \<open>x\<close> has no type keyword, so \<open>parseParameters\<close> gives it the
  type \<open>auto\<close>.  In the second program \<open>main\<close> passes a variable instead:
  \<^verbatim>\<open>Declare Integer n = 5\<close> /
  \<^verbatim>\<open>Call show(n)\<close>.
\<close>

definition show_module :: stmt where
  "show_module =
     ModuleStatement ''show''
       [\<lparr>pname = ''x'', pdataType = ''auto'', isReference = False, isArray = False\<rparr>]
       [DisplayStatement [Item (Identifier ''x'' 2)] 2] 1"

definition auto_literal_program :: "stmt list" where
  "auto_literal_program =
     [show_module,
      ModuleStatement ''main'' []
        [CallStatement ''show'' [Literal (VNum (Fin 5)) 5] 5] 4]"

definition auto_variable_program :: "stmt list" where
  "auto_variable_program =
     [show_module,
      ModuleStatement ''main'' []
        [VariableDeclaration ''integer''
           [Declarator ''n'' None (Some (Literal (VNum (Fin 5)) 5))] False 5,
         CallStatement ''show'' [Identifier ''n'' 6] 6] 4]"




section \<open>Properties of the formatter\<close>

lemma split_on_not_Nil: "split_on sep s \<noteq> []"
  by (induction s) (auto split: list.splits)

lemma split_on_no_sep: "l \<in> set (split_on sep s) \<Longrightarrow> sep \<notin> set l"
  by (induction s arbitrary: l) (auto split: list.splits if_splits)

lemma split_on_append_sep:
  "sep \<notin> set l \<Longrightarrow> split_on sep (l @ sep # s) = l # split_on sep s"
  by (induction l) (auto simp: split_on_not_Nil split: list.splits)

lemma split_on_plain: "sep \<notin> set l \<Longrightarrow> split_on sep l = [l]"
  by (induction l) auto

lemma split_on_join:
  "ls \<noteq> [] \<Longrightarrow> \<forall>l \<in> set ls. sep \<notin> set l \<Longrightarrow> split_on sep (join_with sep ls) = ls"
proof (induction sep ls rule: join_with.induct)
  case (1 sep)
  then show ?case by simp
next
  case (2 sep l)
  then show ?case by (simp add: split_on_plain)
next
  case (3 sep l m ls)
  then show ?case by (simp add: split_on_append_sep)
qed

lemma trim_subset: "set (trim s) \<subseteq> set s"
proof -
  have "set (trim s) = set (dropWhile is_space (rev (dropWhile is_space s)))"
    by (simp add: trim_def)
  also have "\<dots> \<subseteq> set (rev (dropWhile is_space s))" by (rule set_dropWhileD[THEN subsetI])
  also have "\<dots> \<subseteq> set s" using set_dropWhileD by fastforce
  finally show ?thesis .
qed

lemma trim_Nil [simp]: "trim [] = []"
  by (simp add: trim_def)

lemma trim_last: "trim s \<noteq> [] \<Longrightarrow> \<not> is_space (last (trim s))"
proof -
  assume ne: "trim s \<noteq> []"
  define u where "u = dropWhile is_space (rev (dropWhile is_space s))"
  have "u \<noteq> []" using ne by (simp add: trim_def u_def)
  then have "\<not> is_space (hd u)" unfolding u_def by (rule hd_dropWhile)
  moreover have "last (trim s) = hd u" using \<open>u \<noteq> []\<close>
    by (simp add: trim_def u_def last_rev)
  ultimately show ?thesis by simp
qed

lemma last_dropWhile: "dropWhile P xs \<noteq> [] \<Longrightarrow> last (dropWhile P xs) = last xs"
  by (induction xs) (auto split: if_splits)

lemma trim_hd: "trim s \<noteq> [] \<Longrightarrow> \<not> is_space (hd (trim s))"
proof -
  assume ne: "trim s \<noteq> []"
  define v where "v = dropWhile is_space s"
  have d: "dropWhile is_space (rev v) \<noteq> []" using ne by (simp add: trim_def v_def)
  then have "v \<noteq> []" by auto
  then have "\<not> is_space (hd v)" unfolding v_def by (rule hd_dropWhile)
  moreover have "hd (trim s) = last (dropWhile is_space (rev v))"
    using d by (simp add: trim_def v_def hd_rev)
  moreover have "last (dropWhile is_space (rev v)) = hd v"
    using d \<open>v \<noteq> []\<close> by (simp add: last_dropWhile last_rev)
  ultimately show ?thesis by simp
qed

lemma trim_fixed:
  assumes "t \<noteq> []" and "\<not> is_space (hd t)" and "\<not> is_space (last t)"
    and "\<forall>c \<in> set ws. is_space c"
  shows "trim (ws @ t) = t"
proof -
  have "dropWhile is_space (ws @ t) = dropWhile is_space t"
    using assms(4) by (simp add: dropWhile_append)
  also have "\<dots> = t" using assms(1,2) by (cases t) auto
  finally have a: "dropWhile is_space (ws @ t) = t" .
  have "dropWhile is_space (rev t) = rev t"
    using assms(1,3) by (cases "rev t") (auto simp: hd_rev dest: arg_cong[where f = hd])
  with a show ?thesis by (simp add: trim_def)
qed

lemma repeat_INDENTATION_spaces: "\<forall>c \<in> set (repeat_str INDENTATION n). is_space c"
  by (auto simp: repeat_str_def INDENTATION_def is_space_def)

lemma trim_indented:
  "trim l \<noteq> [] \<Longrightarrow> trim (repeat_str INDENTATION n @ trim l) = trim l"
  by (rule trim_fixed) (simp_all add: trim_hd trim_last repeat_INDENTATION_spaces)

lemma format_lines_twice:
  "format_lines lvl (format_lines lvl ls) = format_lines lvl ls"
proof (induction ls arbitrary: lvl)
  case Nil
  then show ?case by simp
next
  case (Cons l ls)
  show ?case
  proof (cases "trim l = []")
    case True
    then show ?thesis using Cons.IH by simp
  next
    case False
    then show ?thesis using Cons.IH
      by (simp add: Let_def trim_indented)
  qed
qed

lemma format_lines_not_Nil: "ls \<noteq> [] \<Longrightarrow> format_lines lvl ls \<noteq> []"
  by (cases ls) (auto simp: Let_def)

lemma format_lines_no_newline:
  "\<forall>l \<in> set ls. CHR 0x0A \<notin> set l \<Longrightarrow> \<forall>l \<in> set (format_lines lvl ls). CHR 0x0A \<notin> set l"
proof (induction ls arbitrary: lvl)
  case Nil
  then show ?case by simp
next
  case (Cons l ls)
  have t: "CHR 0x0A \<notin> set (trim l)"
    using Cons.prems trim_subset[of l] by auto
  have i: "CHR 0x0A \<notin> set (repeat_str INDENTATION n)" for n
    by (auto simp: repeat_str_def INDENTATION_def)
  show ?case using Cons t i by (auto simp: Let_def)
qed

text \<open>
  Claim C8.  The formatter is idempotent: formatting a formatted source gives the same
  text again, for every source string.
\<close>

theorem formatCode_idempotent: "formatCode (formatCode P) = formatCode P"
proof -
  let ?ls = "format_lines 0 (split_on CHR 0x0A P)"
  have "?ls \<noteq> []" by (simp add: format_lines_not_Nil split_on_not_Nil)
  moreover have "\<forall>l \<in> set ?ls. CHR 0x0A \<notin> set l"
    by (rule format_lines_no_newline) (simp add: split_on_no_sep)
  ultimately have "split_on CHR 0x0A (join_with CHR 0x0A ?ls) = ?ls"
    by (rule split_on_join)
  then show ?thesis by (simp add: formatCode_def format_lines_twice)
qed

section \<open>Properties of the lexer\<close>







section \<open>Properties of the evaluator\<close>

subsection \<open>The operators And and Or\<close>

text \<open>
  Claim C1, as stated, fails: \<open>And\<close> does not short-circuit and need not yield a
  boolean.  In \<open>0 And 1 / 0\<close> the left operand is falsy, yet the right operand is
  evaluated and its division by zero is thrown; \<open>1 And 2\<close> yields the number 2.
\<close>

theorem and_evaluates_right_operand:
  "fst (evaluate (new_Interpreter idle_runtime []) 3
          (BinaryExpression (Literal (VNum (Fin 0)) 1) ''and''
             (BinaryExpression (Literal (VNum (Fin 1)) 1) ''/'' (Literal (VNum (Fin 0)) 1) 1) 1)
          (initial_state [] []))
     = Throw (InterpreterError ''Division by zero.'' 1) \<and>
   fst (evaluate (new_Interpreter idle_runtime []) 2
          (BinaryExpression (Literal (VNum (Fin 1)) 1) ''and'' (Literal (VNum (Fin 2)) 1) 1)
          (initial_state [] []))
     = Ok (VNum (Fin 2))"
  by code_simp

text \<open>
  Claim C1, amended.  For every evaluation of a binary \<open>And\<close> (resp. \<open>Or\<close>)
  expression both operands are evaluated, the left one first, then the right one in
  the state the left one leaves, whatever the left value is: an error of either
  operand is the error of the expression, and the effects of both remain.  When both
  succeed, the expression yields the left value if it is falsy (resp. truthy) and the
  right value otherwise.
\<close>

theorem and_or_evaluate_both_operands:
  "evaluate I (Suc n) (BinaryExpression left ''and'' right l) s =
     and_then (evaluate I n left s) (\<lambda>lv s1.
     and_then (evaluate I n right s1) (\<lambda>rv s2.
       (Ok (if ToBoolean lv then rv else lv), s2)))
   \<and>
   evaluate I (Suc n) (BinaryExpression left ''or'' right l) s =
     and_then (evaluate I n left s) (\<lambda>lv s1.
     and_then (evaluate I n right s1) (\<lambda>rv s2.
       (Ok (if ToBoolean lv then lv else rv), s2)))"
proof -
  have a: "binary_operator rt ''and'' lv rv l = (\<lambda>s2. (Ok (if ToBoolean lv then rv else lv), s2))"
    for rt lv rv
    by (rule ext) (simp add: binary_operator_def toLowerCase_def lower_char_def js_and_def Let_def)
  have b: "binary_operator rt ''or'' lv rv l = (\<lambda>s2. (Ok (if ToBoolean lv then lv else rv), s2))"
    for rt lv rv
    by (rule ext) (simp add: binary_operator_def toLowerCase_def lower_char_def js_or_def Let_def)
  show ?thesis by (simp add: evaluate.simps a b)
qed

subsection \<open>The equality operators\<close>

lemma digit_char_value: "(n::nat) < 10 \<Longrightarrow> digit_value (char_of (48 + n)) = n"
  by (simp add: digit_value_def)

lemma digit_char_is_digit: "(n::nat) < 10 \<Longrightarrow> is_digit (char_of (48 + n))"
  by (simp add: is_digit_def)

lemma digits_value_snoc: "digits_value (ds @ [c]) = 10 * digits_value ds + digit_value c"
  by (simp add: digits_value_def)

lemma digits_value_show_nat: "digits_value (show_nat n) = n"
proof (induction n rule: show_nat.induct)
  case (1 n)
  show ?case
  proof (cases "n < 10")
    case True
    then show ?thesis
      by (subst show_nat.simps) (simp add: digits_value_def digit_char_value)
  next
    case False
    then have "digits_value (show_nat n) =
        10 * digits_value (show_nat (n div 10)) + digit_value (char_of (48 + n mod 10))"
      by (subst show_nat.simps) (simp add: digits_value_snoc)
    then show ?thesis using "1.IH"[OF False] by (simp add: digit_char_value)
  qed
qed

lemma all_digits_show_nat: "all_digits (show_nat n)"
proof (induction n rule: show_nat.induct)
  case (1 n)
  show ?case
  proof (cases "n < 10")
    case True
    then show ?thesis
      by (subst show_nat.simps) (simp add: all_digits_def digit_char_is_digit)
  next
    case False
    then show ?thesis using "1.IH"[OF False]
      by (subst show_nat.simps) (simp add: all_digits_def digit_char_is_digit)
  qed
qed

lemma show_nat_not_Nil: "show_nat n \<noteq> []"
  by (subst show_nat.simps) simp

lemma digit_not_space: "is_digit c \<Longrightarrow> \<not> is_space c"
  by (auto simp: is_digit_def is_space_def)

lemma digit_not_exp: "is_digit c \<Longrightarrow> \<not> is_exp_char c"
  by (auto simp: is_digit_def is_exp_char_def)

lemma lower_char_digit:
  assumes "is_digit c"
  shows "lower_char c = c"
proof -
  have "c \<notin> set ''ABCDEFGHIJKLMNOPQRSTUVWXYZ''"
    using assms by (auto simp: is_digit_def)
  then have "map_of (zip ''ABCDEFGHIJKLMNOPQRSTUVWXYZ'' ''abcdefghijklmnopqrstuvwxyz'') c = None"
    by (simp add: map_of_eq_None_iff)
  then show ?thesis by (simp add: lower_char_def)
qed

lemma all_digits_hd: "all_digits t \<Longrightarrow> t \<noteq> [] \<Longrightarrow> is_digit (hd t)"
  by (cases t) (auto simp: all_digits_def)

lemma all_digits_last: "all_digits t \<Longrightarrow> t \<noteq> [] \<Longrightarrow> is_digit (last t)"
  by (auto simp: all_digits_def list_all_iff)

lemma all_digits_nth: "all_digits t \<Longrightarrow> k < length t \<Longrightarrow> is_digit (t ! k)"
  by (auto simp: all_digits_def list_all_length)

lemma takeWhile_all: "list_all P xs \<Longrightarrow> takeWhile P xs = xs"
  by (induction xs) auto

lemma dropWhile_all: "list_all P xs \<Longrightarrow> dropWhile P xs = []"
  by (induction xs) auto

lemma parse_non_decimal_digits:
  assumes "all_digits t"
  shows "parse_non_decimal t = None" and "parse_non_decimal (CHR ''-'' # t) = None"
proof -
  show "parse_non_decimal (CHR ''-'' # t) = None"
    by (simp add: parse_non_decimal_def)
  show "parse_non_decimal t = None"
  proof (cases "length t < 3 \<or> hd t \<noteq> CHR ''0''")
    case True
    then show ?thesis by (auto simp: parse_non_decimal_def)
  next
    case False
    then have "is_digit (t ! 1)" using assms by (simp add: all_digits_nth)
    then have "lower_char (t ! 1) = t ! 1" "t ! 1 \<noteq> CHR ''x''" "t ! 1 \<noteq> CHR ''o''" "t ! 1 \<noteq> CHR ''b''"
      by (auto simp: lower_char_digit is_digit_def)
    then show ?thesis by (simp add: parse_non_decimal_def Let_def)
  qed
qed

lemma parse_unsigned_decimal_digits:
  assumes "all_digits t" and "t \<noteq> []"
  shows "parse_unsigned_decimal t = Some (of_nat (digits_value t))"
proof -
  have ne: "list_all (\<lambda>c. \<not> is_exp_char c) t"
    using assms(1) by (auto simp: all_digits_def list_all_iff digit_not_exp)
  have d: "list_all is_digit t" using assms(1) by (simp add: all_digits_def)
  have m: "takeWhile (\<lambda>c. \<not> is_exp_char c) t = t" "dropWhile (\<lambda>c. \<not> is_exp_char c) t = []"
    using ne by (rule takeWhile_all, rule dropWhile_all)
  have ip: "takeWhile is_digit t = t" "dropWhile is_digit t = []"
    using d by (rule takeWhile_all, rule dropWhile_all)
  have ex: "parse_exponent [] = Some 0" by (simp add: parse_exponent_def)
  show ?thesis
    unfolding parse_unsigned_decimal_def Let_def m ip ex
    using assms(2) by (simp add: pow10_def)
qed

lemma trim_digits:
  assumes "all_digits t" and "t \<noteq> []"
  shows "trim t = t" and "trim (CHR ''-'' # t) = CHR ''-'' # t"
proof -
  have l: "\<not> is_space (last t)" and h: "\<not> is_space (hd t)"
    using assms by (auto simp: all_digits_hd all_digits_last digit_not_space)
  show "trim t = t" using trim_fixed[of t "[]"] assms(2) h l by simp
  have "\<not> is_space CHR ''-''" by (simp add: is_space_def)
  then show "trim (CHR ''-'' # t) = CHR ''-'' # t"
    using trim_fixed[of "CHR ''-'' # t" "[]"] assms(2) l by simp
qed

lemma string_to_number_digits:
  assumes "all_digits t" and "t \<noteq> []"
  shows "string_to_number t = Fin (of_nat (digits_value t))"
    and "string_to_number (CHR ''-'' # t) = Fin (- of_nat (digits_value t))"
proof -
  have h: "hd t \<noteq> CHR ''-''" "hd t \<noteq> CHR ''+''"
    using all_digits_hd[OF assms] by (auto simp: is_digit_def)
  have i: "t \<noteq> ''Infinity''"
    using all_digits_hd[OF assms] by (auto simp: is_digit_def)
  show "string_to_number t = Fin (of_nat (digits_value t))"
    using assms h i
    by (simp add: string_to_number_def Let_def trim_digits parse_non_decimal_digits
          parse_unsigned_decimal_digits)
  show "string_to_number (CHR ''-'' # t) = Fin (- of_nat (digits_value t))"
    using assms i
    by (simp add: string_to_number_def Let_def trim_digits parse_non_decimal_digits
          parse_unsigned_decimal_digits)
qed

lemma string_to_number_decimal_spelling:
  "string_to_number (decimal_spelling i) = Fin (of_int i)"
proof (cases "i < 0")
  case True
  then have "string_to_number (decimal_spelling i) = Fin (- of_nat (nat (- i)))"
    by (simp add: decimal_spelling_def string_to_number_digits all_digits_show_nat
          show_nat_not_Nil digits_value_show_nat)
  also have "- of_nat (nat (- i)) = (of_int i :: rat)" using True by simp
  finally show ?thesis .
next
  case False
  then have "string_to_number (decimal_spelling i) = Fin (of_nat (nat i))"
    by (simp add: decimal_spelling_def string_to_number_digits all_digits_show_nat
          show_nat_not_Nil digits_value_show_nat)
  also have "of_nat (nat i) = (of_int i :: rat)" using False by simp
  finally show ?thesis .
qed

text \<open>
  Claim C10.  \<open>==\<close> and \<open>!=\<close> evaluate both operands and compare the two values
  with JavaScript's loose equality, so \<open>!=\<close> yields the negation of what \<open>==\<close>
  yields on the same operand values; an integer and the string of its decimal
  spelling are equal, in either order, and \<open>1 == "1"\<close> yields true.
\<close>

theorem equality_operators_coerce:
  "evaluate I (Suc n) (BinaryExpression left ''=='' right l) s =
     and_then (evaluate I n left s) (\<lambda>a s1.
     and_then (evaluate I n right s1) (\<lambda>b s2.
       (Ok (VBool (js_loose_eq (runtime I) (arrays s2) a b)), s2)))
   \<and>
   evaluate I (Suc n) (BinaryExpression left ''!='' right l) s =
     and_then (evaluate I n left s) (\<lambda>a s1.
     and_then (evaluate I n right s1) (\<lambda>b s2.
       (Ok (VBool (\<not> js_loose_eq (runtime I) (arrays s2) a b)), s2)))
   \<and>
   js_loose_eq rt h (VNum (Fin (of_int i))) (VStr (decimal_spelling i))
   \<and>
   js_loose_eq rt h (VStr (decimal_spelling i)) (VNum (Fin (of_int i)))
   \<and>
   evaluate I (Suc (Suc n))
       (BinaryExpression (Literal (VNum (Fin 1)) l) ''=='' (Literal (VStr ''1'') l) l) s
     = (Ok (VBool True), s)"
proof -
  have a: "binary_operator r ''=='' x y l = (\<lambda>s2. (Ok (VBool (js_loose_eq r (arrays s2) x y)), s2))"
    for r x y
    by (rule ext) (simp add: binary_operator_def toLowerCase_def lower_char_def Let_def)
  have b: "binary_operator r ''!='' x y l =
             (\<lambda>s2. (Ok (VBool (\<not> js_loose_eq r (arrays s2) x y)), s2))"
    for r x y
    by (rule ext)
       (simp add: binary_operator_def toLowerCase_def lower_char_def js_loose_ne_def Let_def)
  have c: "js_loose_eq r g (VNum (Fin (of_int j))) (VStr (decimal_spelling j))"
    "js_loose_eq r g (VStr (decimal_spelling j)) (VNum (Fin (of_int j)))" for r g j
    by (simp_all add: js_loose_eq_def is_nullish_def bool_to_num_def ToPrimitive_def
          prim_loose_eq_def num_eq_def string_to_number_decimal_spelling)
  have d: "decimal_spelling 1 = ''1''"
    by code_simp
  have e: "js_loose_eq r g (VNum (Fin 1)) (VStr ''1'')" for r g
    using c(1)[of r g 1] by (simp add: d)
  have e1: "evaluate I (Suc n) (BinaryExpression left ''=='' right l) s =
     and_then (evaluate I n left s) (\<lambda>a s1.
     and_then (evaluate I n right s1) (\<lambda>b s2.
       (Ok (VBool (js_loose_eq (runtime I) (arrays s2) a b)), s2)))"
    by (simp add: evaluate.simps a)
  have e2: "evaluate I (Suc n) (BinaryExpression left ''!='' right l) s =
     and_then (evaluate I n left s) (\<lambda>a s1.
     and_then (evaluate I n right s1) (\<lambda>b s2.
       (Ok (VBool (\<not> js_loose_eq (runtime I) (arrays s2) a b)), s2)))"
    by (simp add: evaluate.simps b)
  have e3: "evaluate I (Suc (Suc n))
       (BinaryExpression (Literal (VNum (Fin 1)) l) ''=='' (Literal (VStr ''1'') l) l) s
     = (Ok (VBool True), s)"
    by (simp add: evaluate.simps a e and_then_def)
  from e1 e2 c[of rt h i] e3 show ?thesis by blast
qed

subsection \<open>Parameters without a declared type\<close>

lemma auto_literal_program_run:
  "(case runGenerator (new_Interpreter rt auto_literal_program) 20 (initial_state [] []) of
      (r, s) \<Rightarrow> (r, events s)) = (Throw undefined_name_error, [])"
  by code_simp

lemma auto_variable_program_run:
  "(case runGenerator (new_Interpreter rt auto_variable_program) 20 (initial_state [] []) of
      (r, s) \<Rightarrow> (r, events s, map dataType (cells s))) =
   (Ok (), [Display [VNum (Fin 5)]], [''integer'', ''integer''])"
  by code_simp

text \<open>
  Claim C5 against the code.  A by-value parameter of type \<open>auto\<close> bound to a
  literal: \<open>executeCallGenerator\<close> reads \<open>(arg as Identifier).name\<close>, which is
  \<open>undefined\<close> for a literal, and \<open>getEntry\<close> throws a \<open>TypeError\<close>: the call
  fails and nothing is displayed.  With a variable as the argument the call succeeds
  and the slot of the parameter takes the declared type of the variable.
\<close>

theorem auto_parameter_literal_argument_fails:
  "fst (runGenerator (new_Interpreter rt auto_literal_program) 20 (initial_state [] []))
     = Throw undefined_name_error \<and>
   events (snd (runGenerator (new_Interpreter rt auto_literal_program) 20 (initial_state [] [])))
     = [] \<and>
   fst (runGenerator (new_Interpreter rt auto_variable_program) 20 (initial_state [] []))
     = Ok () \<and>
   events (snd (runGenerator (new_Interpreter rt auto_variable_program) 20 (initial_state [] [])))
     = [Display [VNum (Fin 5)]] \<and>
   map dataType
     (cells (snd (runGenerator (new_Interpreter rt auto_variable_program) 20 (initial_state [] []))))
     = [''integer'', ''integer'']"
  using auto_literal_program_run[of rt] auto_variable_program_run[of rt]
  by (simp add: case_prod_unfold)

subsection \<open>The For statement\<close>





subsection \<open>Step points of a run\<close>

lemma debug_program_run:
  "(case runGenerator (new_Interpreter rt debug_program) 10 (initial_state [] []) of
      (r, s) \<Rightarrow> (r, events s, map lineNumber (yields s), map scope (yields s))) =
   (Ok (), [Display [VNum (Fin 4)]], [2, 3, 4, 5],
    [[], [(''x'', VNum (Fin 1))], [(''x'', VNum (Fin 2))], [(''x'', VNum (Fin 4))]])"
  by code_simp

text \<open>
  Claim C7.  In debug mode the host receives what \<open>runGenerator\<close> yields.  The run
  of the program ends normally and yields exactly four step points, one before each
  of the four statements of \<open>main\<close> (lines 2 to 5); their scope snapshots are empty,
  \<open>x = 1\<close>, \<open>x = 2\<close> and \<open>x = 4\<close>.  The snapshot the host sees once the third
  statement has run is the fourth one: it shows \<open>x = 4\<close>.  The only output is one
  \<open>Display\<close> of the value 4.
\<close>

theorem debug_program_steps:
  "case runGenerator (new_Interpreter rt debug_program) 10 (initial_state [] []) of
     (r, s) \<Rightarrow>
       r = Ok () \<and> length (yields s) = 4 \<and>
       map lineNumber (yields s) = [2, 3, 4, 5] \<and>
       map scope (yields s) =
         [[], [(''x'', VNum (Fin 1))], [(''x'', VNum (Fin 2))], [(''x'', VNum (Fin 4))]] \<and>
       scope (yields s ! 3) = [(''x'', VNum (Fin 4))] \<and>
       events s = [Display [VNum (Fin 4)]]"
proof -
  obtain r s where rs: "runGenerator (new_Interpreter rt debug_program) 10 (initial_state [] []) = (r, s)"
    by (cases "runGenerator (new_Interpreter rt debug_program) 10 (initial_state [] [])")
  from debug_program_run[of rt] rs
  have "r = Ok ()" "events s = [Display [VNum (Fin 4)]]"
    "map lineNumber (yields s) = [2, 3, 4, 5]"
    "map scope (yields s) =
       [[], [(''x'', VNum (Fin 1))], [(''x'', VNum (Fin 2))], [(''x'', VNum (Fin 4))]]"
    by simp_all
  moreover from this(4) have "length (yields s) = 4" "scope (yields s ! 3) = [(''x'', VNum (Fin 4))]"
    by (auto dest: arg_cong[where f = length] arg_cong[where f = "\<lambda>xs. xs ! 3"]
             simp: nth_map[symmetric] simp del: nth_map)
  ultimately show ?thesis using rs by simp
qed

end
